theory Spec2Isabelle
  imports Complex_Main
begin

unbundle bit_operations_syntax

section \<open>Common\<close>

text \<open>
  The program is \<^verbatim>\<open>playground/engine.py\<close>: the ray pack, the registry of mesh primitives
  and PBR materials (\<^verbatim>\<open>Primitives\<close>) and the render orchestrator (\<^verbatim>\<open>Engine3DGRUT\<close>).
  Python exceptions are values of \<open>error\<close>; a function that can raise returns
  \<open>error + 'a\<close> with \<open>Inl\<close> for the exception.
\<close>

datatype error =
  AssertionError | KeyError | ValueError | IndexError | RuntimeError
  | AttributeError | ZeroDivisionError

subsection \<open>Arrays with a shape\<close>

text \<open>
  A torch tensor whose number of dimensions matters is a shape and its elements in
  row-major order. \<open>ndim\<close> is \<^verbatim>\<open>tensor.ndim\<close>.
\<close>

record 'a tensor =
  shape :: "nat list"
  elems :: "'a list"

definition ndim :: "'a tensor \<Rightarrow> nat" where
  "ndim t = length (shape t)"

definition row_len :: "'a tensor \<Rightarrow> nat" where
  "row_len t = prod_list (tl (shape t))"

text \<open>\<^verbatim>\<open>tensor.narrow(0, start, len)\<close>: \<open>len\<close> slices along the first dimension.\<close>

definition narrow :: "'a tensor \<Rightarrow> nat \<Rightarrow> nat \<Rightarrow> 'a tensor" where
  "narrow t start len =
     \<lparr>shape = len # tl (shape t),
      elems = take (len * row_len t) (drop (start * row_len t) (elems t))\<rparr>"

text \<open>
  \<^verbatim>\<open>torch.split(t, split_size, dim=0)\<close> with an integer size, as the library documents
  and checks it: a negative size is an error, size 0 is an error unless the dimension is
  empty, and the number of chunks is \<^verbatim>\<open>max(ceil(n / split_size), 1)\<close>, every chunk of
  \<open>split_size\<close> slices but the last, which holds the rest.
\<close>

function split_lengths :: "nat \<Rightarrow> nat \<Rightarrow> nat list" where
  "split_lengths sz n = (if sz = 0 \<or> n \<le> sz then [n] else sz # split_lengths sz (n - sz))"
  by pat_completeness auto
termination
  by (relation "measure (\<lambda>(sz, n). n)") auto

fun narrows :: "'a tensor \<Rightarrow> nat \<Rightarrow> nat list \<Rightarrow> 'a tensor list" where
  "narrows t start [] = []"
| "narrows t start (l # ls) = narrow t start l # narrows t (start + l) ls"

definition torch_split :: "'a tensor \<Rightarrow> int \<Rightarrow> error + 'a tensor list" where
  "torch_split t split_size =
     (case shape t of
        [] \<Rightarrow> Inl RuntimeError
      | n # rest \<Rightarrow>
          if split_size < 0 then Inl RuntimeError
          else if split_size = 0 \<and> n \<noteq> 0 then Inl RuntimeError
          else Inr (narrows t 0 (split_lengths (nat split_size) n)))"

subsection \<open>RayPack\<close>

record RayPack =
  rays_ori :: "real tensor"
  rays_dir :: "real tensor"
  pixel_x :: "real tensor option"
  pixel_y :: "real tensor option"
  mask :: "bool tensor option"

text \<open>
  \<^verbatim>\<open>RayPack.split(size)\<close>. With no size the pack itself is returned. Otherwise the
  assertion on the two dimension counts comes first, then both arrays are split and the
  chunks are paired by \<^verbatim>\<open>zip\<close>; a chunk pack is built from the two arrays only, so its
  pixel coordinates and mask are \<^verbatim>\<open>None\<close>.
\<close>

definition RayPack_split :: "RayPack \<Rightarrow> int option \<Rightarrow> error + RayPack list" where
  "RayPack_split self chunk_size =
     (case chunk_size of
        None \<Rightarrow> Inr [self]
      | Some sz \<Rightarrow>
          if \<not> (ndim (rays_ori self) = 2 \<and> ndim (rays_dir self) = 2) then Inl AssertionError
          else
            (case torch_split (rays_ori self) sz of
               Inl e \<Rightarrow> Inl e
             | Inr rays_orig \<Rightarrow>
                 (case torch_split (rays_dir self) sz of
                    Inl e \<Rightarrow> Inl e
                  | Inr rays_dirs \<Rightarrow>
                      Inr (map (\<lambda>(ray_ori, ray_dir).
                                  \<lparr>rays_ori = ray_ori, rays_dir = ray_dir, pixel_x = None,
                                   pixel_y = None, mask = None\<rparr>)
                             (zip rays_orig rays_dirs)))))"

declare split_lengths.simps [simp del]

subsection \<open>PBRMaterial\<close>

text \<open>
  A material dictionary of the mesh loader and a \<^verbatim>\<open>PBRMaterial\<close> hold the same twelve
  entries; the dictionary adds \<^verbatim>\<open>material_name\<close>, the dataclass \<^verbatim>\<open>material_id\<close>.
\<close>

record material_entries =
  diffuse_map :: "real tensor option"
  emissive_map :: "real tensor option"
  metallic_roughness_map :: "real tensor option"
  normal_map :: "real tensor option"
  diffuse_factor :: "real tensor option"
  emissive_factor :: "real tensor option"
  metallic_factor :: real
  roughness_factor :: real
  alpha_mode :: int
  alpha_cutoff :: real
  transmission_factor :: real
  ior :: real

record material_dict = material_entries +
  material_name :: string

record PBRMaterial = material_entries +
  material_id :: int

section \<open>OptiX structs\<close>

datatype OptixPrimitiveTypes = NONE | MIRROR | GLASS | DIFFUSE

fun primitive_type_value :: "OptixPrimitiveTypes \<Rightarrow> int" where
  "primitive_type_value NONE = 0"
| "primitive_type_value MIRROR = 1"
| "primitive_type_value GLASS = 2"
| "primitive_type_value DIFFUSE = 3"

definition SMOOTH_NORMALS :: int where "SMOOTH_NORMALS = 1"
definition DISABLE_GAUSSIAN_TRACING :: int where "DISABLE_GAUSSIAN_TRACING = 2"
definition DISABLE_PBR_TEXTURES :: int where "DISABLE_PBR_TEXTURES = 4"

type_synonym vec2 = "real \<times> real"
type_synonym vec3 = "real \<times> real \<times> real"
type_synonym triangle = "int \<times> int \<times> int"
type_synonym face_uv = "vec2 \<times> vec2 \<times> vec2"

text \<open>
  Modelled from the spec: \<^verbatim>\<open>ObjectTransform\<close> (\<^verbatim>\<open>playground.utils.kaolin_future.transform\<close>)
  is not among the sources. The spec describes it as an affine transform of translation,
  rotation and non-uniform scale; \<^verbatim>\<open>ObjectTransform(device)\<close> is the identity and
  \<^verbatim>\<open>transform.scale(s)\<close> multiplies the scale component by \<open>s\<close>.
\<close>

record ObjectTransform =
  tr_translation :: vec3
  tr_rotation :: "real list"
  tr_scale :: vec3

definition identity_transform :: ObjectTransform where
  "identity_transform = \<lparr>tr_translation = (0, 0, 0), tr_rotation = [], tr_scale = (1, 1, 1)\<rparr>"

definition ObjectTransform_scale :: "real \<Rightarrow> ObjectTransform \<Rightarrow> ObjectTransform" where
  "ObjectTransform_scale s t =
     (case tr_scale t of (x, y, z) \<Rightarrow> t\<lparr>tr_scale := (s * x, s * y, s * z)\<rparr>)"

text \<open>The mesh object the loader returns, with the attributes the registry reads.\<close>

record Mesh =
  mesh_vertices :: "vec3 list"
  mesh_faces :: "triangle list"
  mesh_vertex_normals :: "vec3 list"
  mesh_vertex_tangents :: "vec3 list option"
  mesh_face_uvs :: "face_uv list"
  mesh_material_assignments :: "int list"

text \<open>
  \<^verbatim>\<open>OptixPrimitive\<close> as \<^verbatim>\<open>add_primitive\<close> fills it. Its attribute \<^verbatim>\<open>material_id\<close> is
  \<open>face_material_id\<close> here, since \<open>material_id\<close> is the field of \<open>PBRMaterial\<close>.
\<close>

record OptixPrimitive =
  geometry_type :: string
  vertices :: "vec3 list"
  triangles :: "triangle list"
  vertex_normals :: "vec3 list"
  has_tangents :: "bool list"
  vertex_tangents :: "vec3 list"
  material_uv :: "face_uv list"
  face_material_id :: "int list"
  primitive_type :: OptixPrimitiveTypes
  primitive_type_tensor :: "int list"
  reflectance_scatter :: "real list"
  refractive_index :: real
  refractive_index_tensor :: "real list"
  transform :: ObjectTransform

text \<open>The ten fields \<^verbatim>\<open>OptixPrimitive.stack\<close> sets; it leaves the others \<^verbatim>\<open>None\<close>.\<close>

record StackedFields =
  sf_vertices :: "vec3 list"
  sf_triangles :: "triangle list"
  sf_vertex_normals :: "vec3 list"
  sf_has_tangents :: "bool list"
  sf_vertex_tangents :: "vec3 list"
  sf_material_uv :: "face_uv list"
  sf_material_id :: "int list"
  sf_primitive_type_tensor :: "int list"
  sf_reflectance_scatter :: "real list"
  sf_refractive_index_tensor :: "real list"

text \<open>
  The tracer is the external accelerator. Of its state the registry changes only the mesh
  acceleration structure, by \<^verbatim>\<open>build_mesh_acc\<close>; the model keeps the list of these calls,
  oldest first, which is the rebuild counter of a mock accelerator.
\<close>

record build_mesh_acc_call =
  arg_mesh_vertices :: "vec3 list"
  arg_mesh_faces :: "triangle list"
  arg_rebuild :: bool
  arg_allow_update :: bool

record Tracer =
  mesh_acc_builds :: "build_mesh_acc_call list"

text \<open>
  \<^verbatim>\<open>Primitives\<close>. The dictionaries \<^verbatim>\<open>objects\<close> and \<^verbatim>\<open>registered_materials\<close> are
  association lists in insertion order, the order in which Python iterates them.
\<close>

type_synonym registry = "(string \<times> PBRMaterial) list"

record Primitives =
  assets :: "string \<rightharpoonup> string option"
  tracer :: Tracer
  enabled :: bool
  objects :: "(string \<times> OptixPrimitive) list"
  use_smooth_normals :: bool
  disable_gaussian_tracing :: bool
  disable_pbr_textures :: bool
  force_white_bg :: bool
  enable_envmap :: bool
  use_envmap_as_background :: bool
  scene_scale :: vec3
  stacked_fields :: "StackedFields option"
  dirty :: bool
  instance_counter :: "string \<rightharpoonup> int"
  registered_materials :: registry

section \<open>Renderer data\<close>

text \<open>
  A render buffer is a batch of frames, a frame a list of pixels (the height by width grid,
  row by row) and a pixel its channels. The batch dimension is the one the engine's own
  code varies (it traces a batch of ray grids and reduces it to one frame), so it is kept
  and its broadcasting and shape checks are written out; all frames of one pass come from
  one camera, so below the batch dimension element-wise operations are zips.
  Floating-point numbers are modelled as reals: no rounding, no NaN, no infinity.
\<close>

type_synonym pixel = "real list"
type_synonym frame = "pixel list"
type_synonym batch = "frame list"

datatype device_type = CPU | CUDA

record Camera =
  device :: device_type
  height :: nat
  width :: nat
  view_matrix :: "real list"
  cam_R :: "real list"

record RenderResults =
  pred_rgb :: batch
  pred_opacity :: batch
  last_ray_d :: batch

text \<open>
  The dictionary \<^verbatim>\<open>rb\<close>: \<^verbatim>\<open>rgb\<close> and \<^verbatim>\<open>opacity\<close> while a pass accumulates, and the key
  \<^verbatim>\<open>rgb_buffer\<close> added before denoising.
\<close>

record AccumulationBuffers =
  rgb :: batch
  opacity :: batch

record RenderBuffers = AccumulationBuffers +
  rgb_buffer :: batch

text \<open>
  \<^verbatim>\<open>last_state\<close> after a completed pass. Before the first pass the dictionary has no key
  \<^verbatim>\<open>rgb_buffer\<close> (and \<^verbatim>\<open>None\<close> for the others): that state is \<open>None\<close> in the engine.
\<close>

record LastState =
  canvas_size :: "nat \<times> nat"
  ls_camera :: "real list"
  ls_rgb :: batch
  ls_rgb_buffer :: batch
  ls_opacity :: batch

text \<open>
  The accumulation controllers \<^verbatim>\<open>SPP\<close> and \<^verbatim>\<open>DepthOfField\<close> are external collaborators.
  The engine reads their attributes \<^verbatim>\<open>spp_accumulated_for_frame\<close>, \<^verbatim>\<open>spp\<close> (the
  configured number of samples, \<open>spp_target\<close> here, as \<open>spp\<close> is the engine's field) and
  \<^verbatim>\<open>batch_size\<close>; their methods are parameters of the model (see \<open>Externals\<close>).
\<close>

record AccumulationController =
  spp_accumulated_for_frame :: int
  spp_target :: int

record DepthOfField = AccumulationController +
  aperture_size :: real
  focus_z :: real

record SPP = AccumulationController +
  mode :: string
  batch_size :: int

record Engine3DGRUT =
  frame_id :: int
  camera_type :: string
  camera_fov :: real
  use_depth_of_field :: bool
  depth_of_field :: DepthOfField
  use_spp :: bool
  spp :: SPP
  gamma_correction :: real
  max_pbr_bounces :: int
  use_optix_denoiser :: bool
  primitives :: Primitives
  last_state :: "LastState option"
  is_materials_dirty :: bool
  envmap :: "real tensor option"

text \<open>The keyword arguments of \<^verbatim>\<open>tracer.render_playground\<close>.\<close>

record render_playground_args =
  arg_ray_o :: "real tensor"
  arg_ray_d :: "real tensor"
  arg_playground_opts :: int
  arg_faces :: "triangle list"
  arg_vertex_normals :: "vec3 list"
  arg_vertex_tangents :: "vec3 list"
  arg_vertex_tangents_mask :: "bool list"
  arg_primitive_type :: "int list"
  arg_frame_id :: int
  arg_material_uv :: "face_uv list"
  arg_material_id :: "int list"
  arg_materials :: "PBRMaterial list"
  arg_is_sync_materials :: bool
  arg_refractive_index :: "real list"
  arg_background_color :: vec3
  arg_envmap :: "real tensor option"
  arg_enable_envmap :: bool
  arg_use_envmap_as_background :: bool
  arg_max_pbr_bounces :: int

text \<open>
  The external collaborators, as deterministic functions: the mesh loader, the transform's
  matrices, the tracer, the volumetric model, the accumulation controllers and the
  camera library. A controller's call returns its result and the controller after the call.
\<close>

record Externals =
  load_mesh :: "string option \<Rightarrow> Mesh"
  load_materials :: "Mesh \<Rightarrow> material_dict list"
  load_missing_material_info :: "string option \<Rightarrow> material_dict list \<Rightarrow> material_dict list"
  create_procedural_mesh :: "vec3 list \<Rightarrow> triangle list \<Rightarrow> face_uv list \<Rightarrow> Mesh"
  model_matrix :: "ObjectTransform \<Rightarrow> real list list"
  rotation_matrix :: "ObjectTransform \<Rightarrow> real list list"
  render_playground :: "render_playground_args \<Rightarrow> RenderResults"
  denoise :: "batch \<Rightarrow> batch"
  mog_trace :: "real tensor \<Rightarrow> real tensor \<Rightarrow> RenderResults"
  mog_background_color :: "vec3 option"
  mog_background :: "batch \<Rightarrow> batch \<Rightarrow> batch \<Rightarrow> batch \<times> batch"
  spp_call :: "SPP \<Rightarrow> nat \<Rightarrow> nat \<Rightarrow> (real \<times> real) list \<times> SPP"
  spp_has_more_to_accumulate :: "SPP \<Rightarrow> bool"
  spp_reset_accumulation :: "SPP \<Rightarrow> SPP"
  dof_call :: "DepthOfField \<Rightarrow> real list \<Rightarrow> RayPack
                 \<Rightarrow> (real tensor \<times> real tensor) \<times> DepthOfField"
  dof_has_more_to_accumulate :: "DepthOfField \<Rightarrow> bool"
  dof_reset_accumulation :: "DepthOfField \<Rightarrow> DepthOfField"
  generate_centered_pixel_coords :: "nat \<Rightarrow> nat \<Rightarrow> real tensor \<times> real tensor"
  generate_pinhole_rays :: "Camera \<Rightarrow> real tensor \<times> real tensor
                              \<Rightarrow> real tensor \<times> real tensor"
  generate_fisheye_rays :: "Camera \<Rightarrow> real tensor \<times> real tensor
                              \<Rightarrow> real tensor \<times> real tensor \<times> bool tensor"

section \<open>Primitives\<close>

subsection \<open>Python helpers\<close>

text \<open>\<^verbatim>\<open>str(i)\<close> of an integer, for the display names.\<close>

definition digit_char :: "nat \<Rightarrow> char" where
  "digit_char d = ''0123456789'' ! d"

function str_nat :: "nat \<Rightarrow> string" where
  "str_nat n =
     (if n < 10 then [digit_char n] else str_nat (n div 10) @ [digit_char (n mod 10)])"
  by pat_completeness auto
termination
  by (relation "measure (\<lambda>n. n)") auto

declare str_nat.simps [simp del]

definition str_int :: "int \<Rightarrow> string" where
  "str_int i = (if i < 0 then ''-'' @ str_nat (nat (- i)) else str_nat (nat i))"

text \<open>\<^verbatim>\<open>d[k] = v\<close> on a dictionary: a known key keeps its place, a new one goes last.\<close>

fun dict_set :: "('k \<times> 'v) list \<Rightarrow> 'k \<Rightarrow> 'v \<Rightarrow> ('k \<times> 'v) list" where
  "dict_set [] k v = [(k, v)]"
| "dict_set ((k', v') # d) k v = (if k' = k then (k, v) # d else (k', v') # dict_set d k v)"

text \<open>\<^verbatim>\<open>del d[k]\<close>; the caller has checked that the key is there.\<close>

definition dict_del :: "('k \<times> 'v) list \<Rightarrow> 'k \<Rightarrow> ('k \<times> 'v) list" where
  "dict_del d k = filter (\<lambda>kv. fst kv \<noteq> k) d"

text \<open>Indexing with an integer that may be negative or out of range.\<close>

definition py_index :: "'a list \<Rightarrow> int \<Rightarrow> error + 'a" where
  "py_index xs i =
     (if 0 \<le> i \<and> i < int (length xs) then Inr (xs ! nat i)
      else if i < 0 \<and> - int (length xs) \<le> i then Inr (xs ! nat (int (length xs) + i))
      else Inl IndexError)"

fun py_index_all :: "'a list \<Rightarrow> int list \<Rightarrow> error + 'a list" where
  "py_index_all xs [] = Inr []"
| "py_index_all xs (i # is) =
     (case py_index xs i of
        Inl e \<Rightarrow> Inl e
      | Inr x \<Rightarrow> (case py_index_all xs is of Inl e \<Rightarrow> Inl e | Inr ys \<Rightarrow> Inr (x # ys)))"

subsection \<open>Default materials\<close>

definition checkboard_res :: nat where "checkboard_res = 512"
definition checkboard_square :: nat where "checkboard_square = 20"

text \<open>
  The two loops of \<^verbatim>\<open>register_default_materials\<close> set the colour channels of the slice
  \<^verbatim>\<open>[start_y:end_y, start_x:end_x]\<close> to 0.5 for every \<open>i\<close> and \<open>j\<close>; a texel is hit when
  one of the slices holds it.
\<close>

definition checkboard_hit :: "nat \<Rightarrow> nat \<Rightarrow> bool" where
  "checkboard_hit y x =
     list_ex (\<lambda>i. list_ex (\<lambda>j.
        let start_x = (2 * i + j mod 2) * checkboard_square;
            end_x = min ((2 * i + 1 + j mod 2) * checkboard_square) checkboard_res;
            start_y = j * checkboard_square;
            end_y = min ((j + 1) * checkboard_square) checkboard_res
        in start_y \<le> y \<and> y < end_y \<and> start_x \<le> x \<and> x < end_x)
        [0 ..< checkboard_res div checkboard_square])
        [0 ..< checkboard_res div checkboard_square]"

definition checkboard_texture :: "real tensor" where
  "checkboard_texture =
     \<lparr>shape = [checkboard_res, checkboard_res, 4],
      elems = concat (map (\<lambda>y. concat (map (\<lambda>x.
                if checkboard_hit y x then [0.5, 0.5, 0.5, 1] else [0.25, 0.25, 0.25, 1])
                [0 ..< checkboard_res])) [0 ..< checkboard_res])\<rparr>"

definition ones_tensor :: "nat \<Rightarrow> real tensor" where
  "ones_tensor n = \<lparr>shape = [n], elems = replicate n 1\<rparr>"

definition zeros_tensor :: "nat \<Rightarrow> real tensor" where
  "zeros_tensor n = \<lparr>shape = [n], elems = replicate n 0\<rparr>"

definition register_default_materials :: registry where
  "register_default_materials =
     [(''solid'',
       \<lparr>diffuse_map = Some \<lparr>shape = [2, 2, 4],
                             elems = concat (replicate 4 [130 / 255, 193 / 255, 255 / 255, 1])\<rparr>,
        emissive_map = None, metallic_roughness_map = None, normal_map = None,
        diffuse_factor = Some (ones_tensor 4), emissive_factor = Some (zeros_tensor 3),
        metallic_factor = 0, roughness_factor = 0, alpha_mode = 0, alpha_cutoff = 0.5,
        transmission_factor = 0, ior = 1, material_id = 0\<rparr>),
      (''checkboard'',
       \<lparr>diffuse_map = Some checkboard_texture,
        emissive_map = None, metallic_roughness_map = None, normal_map = None,
        diffuse_factor = Some (ones_tensor 4), emissive_factor = Some (zeros_tensor 3),
        metallic_factor = 0, roughness_factor = 0, alpha_mode = 0, alpha_cutoff = 0.5,
        transmission_factor = 0, ior = 1, material_id = 1\<rparr>)]"

subsection \<open>Scaling a new mesh\<close>

definition SCALE_OF_NEW_MESH_TO_SMALL_SCENE :: real where
  "SCALE_OF_NEW_MESH_TO_SMALL_SCENE = 0.5"

definition DEFAULT_REFRACTIVE_INDEX :: real where
  "DEFAULT_REFRACTIVE_INDEX = 1.33"

definition vec_max :: "vec3 \<Rightarrow> real" where
  "vec_max v = (case v of (x, y, z) \<Rightarrow> max (max x y) z)"

definition vec_sub :: "vec3 \<Rightarrow> vec3 \<Rightarrow> vec3" where
  "vec_sub a b = (case (a, b) of ((x, y, z), (u, v, w)) \<Rightarrow> (x - u, y - v, z - w))"

definition vec_scale :: "real \<Rightarrow> vec3 \<Rightarrow> vec3" where
  "vec_scale s v = (case v of (x, y, z) \<Rightarrow> (s * x, s * y, s * z))"

text \<open>\<^verbatim>\<open>vertices.max(dim=0)[0]\<close> and \<^verbatim>\<open>vertices.min(dim=0)[0]\<close> of a non-empty list.\<close>

fun max_dim0 :: "vec3 \<Rightarrow> vec3 list \<Rightarrow> vec3" where
  "max_dim0 a [] = a"
| "max_dim0 (x, y, z) ((u, v, w) # vs) = max_dim0 (max x u, max y v, max z w) vs"

fun min_dim0 :: "vec3 \<Rightarrow> vec3 list \<Rightarrow> vec3" where
  "min_dim0 a [] = a"
| "min_dim0 (x, y, z) ((u, v, w) # vs) = min_dim0 (min x u, min y v, min z w) vs"

text \<open>
  \<^verbatim>\<open>set_mesh_scale_to_scene(mesh, transform)\<close>; the transform is changed in place, so the
  model returns it. A reduction over no vertices raises.
\<close>

definition set_mesh_scale_to_scene ::
    "Primitives \<Rightarrow> Mesh \<Rightarrow> ObjectTransform \<Rightarrow> error + ObjectTransform" where
  "set_mesh_scale_to_scene self mesh transform0 =
     (case mesh_vertices mesh of
        [] \<Rightarrow> Inl IndexError
      | v # vs \<Rightarrow>
          let mesh_scale = vec_sub (max_dim0 v vs) (min_dim0 v vs);
              transform1 = ObjectTransform_scale (1.0 / vec_max mesh_scale) transform0
          in if vec_max (scene_scale self) > 5.0 then Inr transform1
             else
               let adjusted_scale = vec_scale SCALE_OF_NEW_MESH_TO_SMALL_SCENE (scene_scale self);
                   largest_axis_scale = vec_max adjusted_scale
               in Inr (ObjectTransform_scale largest_axis_scale transform1))"

subsection \<open>Materials\<close>

text \<open>
  \<^verbatim>\<open>register_materials(materials, model_name)\<close>: the loop over \<^verbatim>\<open>enumerate(materials)\<close>,
  with the registry and the result array \<^verbatim>\<open>mat_idx_to_mat_id\<close> as its state.
\<close>

definition material_key :: "string \<Rightarrow> 'a material_dict_scheme \<Rightarrow> string" where
  "material_key model_name mat = model_name @ ''$'' @ material_name mat"

fun register_materials_loop ::
    "string \<Rightarrow> (nat \<times> material_dict) list \<Rightarrow> registry \<times> int list \<Rightarrow> registry \<times> int list" where
  "register_materials_loop model_name [] st = st"
| "register_materials_loop model_name ((mat_idx, mat) # rest) (reg, mat_idx_to_mat_id) =
     (let name = material_key model_name mat;
          reg' = (if map_of reg name = None
                  then reg @ [(name,
                         \<lparr>diffuse_map = diffuse_map mat, emissive_map = emissive_map mat,
                          metallic_roughness_map = metallic_roughness_map mat,
                          normal_map = normal_map mat, diffuse_factor = diffuse_factor mat,
                          emissive_factor = emissive_factor mat,
                          metallic_factor = metallic_factor mat,
                          roughness_factor = roughness_factor mat, alpha_mode = alpha_mode mat,
                          alpha_cutoff = alpha_cutoff mat,
                          transmission_factor = transmission_factor mat, ior = ior mat,
                          material_id = int (length reg)\<rparr>)]
                  else reg)
      in register_materials_loop model_name rest
           (reg', mat_idx_to_mat_id[mat_idx := material_id (the (map_of reg' name))]))"

definition register_materials ::
    "registry \<Rightarrow> material_dict list \<Rightarrow> string \<Rightarrow> registry \<times> int list" where
  "register_materials reg materials model_name =
     register_materials_loop model_name (enumerate 0 materials)
       (reg, replicate (length materials) (- 1))"

text \<open>
  \<^verbatim>\<open>Primitives.__init__\<close>, given the asset dictionary that \<^verbatim>\<open>register_available_assets\<close>
  reads from the folder; the scene scale defaults to ones.
\<close>

definition Primitives_init ::
    "Tracer \<Rightarrow> (string \<rightharpoonup> string option) \<Rightarrow> bool \<Rightarrow> bool \<Rightarrow> vec3 option \<Rightarrow> Primitives" where
  "Primitives_init tr folder_assets with_envmap envmap_as_background scale_opt =
     \<lparr>assets = folder_assets(''Quad'' \<mapsto> None),
      tracer = tr,
      enabled = True,
      objects = [],
      use_smooth_normals = True,
      disable_gaussian_tracing = False,
      disable_pbr_textures = False,
      force_white_bg = False,
      enable_envmap = with_envmap,
      use_envmap_as_background = envmap_as_background,
      scene_scale = (case scale_opt of None \<Rightarrow> (1.0, 1.0, 1.0) | Some sc \<Rightarrow> sc),
      stacked_fields = None,
      dirty = True,
      instance_counter = Map.empty,
      registered_materials = register_default_materials\<rparr>"

subsection \<open>Geometry\<close>

definition quad_mesh :: "Externals \<Rightarrow> Mesh" where
  "quad_mesh ext =
     (let MS = 1.0; MZ = 2.5;
          v0 = (- MS, - MS, MZ); v1 = (- MS, MS, MZ); v2 = (MS, - MS, MZ); v3 = (MS, MS, MZ);
          uv0 = (0, 0); uv1 = (0, 1); uv2 = (1, 0); uv3 = (1, 1)
      in create_procedural_mesh ext [v0, v1, v2, v3] [(0, 1, 2), (2, 1, 3)]
           [(uv0, uv1, uv2), (uv2, uv1, uv3)])"

text \<open>
  \<^verbatim>\<open>create_geometry(geometry_type, device)\<close>. An asset's materials are registered, which
  changes the registry, so the model returns the registry with the mesh. An unknown
  geometry name is a \<^verbatim>\<open>KeyError\<close> of the asset dictionary.
\<close>

definition create_geometry ::
    "Externals \<Rightarrow> Primitives \<Rightarrow> string \<Rightarrow> error + Mesh \<times> Primitives" where
  "create_geometry ext self gtype =
     (let clamp0 = (\<lambda>(mesh, self').
            (mesh\<lparr>mesh_material_assignments := map (max 0) (mesh_material_assignments mesh)\<rparr>,
             self'))
      in if gtype = ''Quad'' then Inr (clamp0 (quad_mesh ext, self))
         else
           (case assets self gtype of
              None \<Rightarrow> Inl KeyError
            | Some mesh_path \<Rightarrow>
                let mesh = load_mesh ext mesh_path;
                    materials = load_materials ext mesh
                in if length materials > 0
                   then
                     (let materials' = load_missing_material_info ext mesh_path materials;
                          (reg, material_index_mapping) =
                             register_materials (registered_materials self) materials' gtype
                      in case py_index_all material_index_mapping (mesh_material_assignments mesh) of
                           Inl e \<Rightarrow> Inl e
                         | Inr ids \<Rightarrow>
                             Inr (clamp0 (mesh\<lparr>mesh_material_assignments := ids\<rparr>,
                                          self\<lparr>registered_materials := reg\<rparr>)))
                   else Inr (clamp0 (mesh, self))))"

text \<open>
  \<^verbatim>\<open>add_primitive(geometry_type, primitive_type, device)\<close>. The per-face arrays are made
  by \<^verbatim>\<open>mesh.faces.new_full\<close>, in the integer type of the face array, so the refractive
  index is truncated there; \<^verbatim>\<open>.float()\<close> on missing tangents raises.
\<close>

definition add_primitive ::
    "Externals \<Rightarrow> Primitives \<Rightarrow> string \<Rightarrow> OptixPrimitiveTypes \<Rightarrow> error + Primitives" where
  "add_primitive ext self gtype ptype =
     (let count = (case instance_counter self gtype of None \<Rightarrow> 1 | Some c \<Rightarrow> c + 1);
          self1 = self\<lparr>instance_counter := (instance_counter self)(gtype \<mapsto> count)\<rparr>;
          name = gtype @ '' '' @ str_int count
      in case create_geometry ext self1 gtype of
           Inl e \<Rightarrow> Inl e
         | Inr (mesh, self2) \<Rightarrow>
             let num_verts = length (mesh_vertices mesh);
                 num_faces = length (mesh_faces mesh);
                 tangent_mask = replicate num_verts (mesh_vertex_tangents mesh \<noteq> None)
             in (case set_mesh_scale_to_scene self2 mesh identity_transform of
                   Inl e \<Rightarrow> Inl e
                 | Inr transform1 \<Rightarrow>
                     (case mesh_vertex_tangents mesh of
                        None \<Rightarrow> Inl AttributeError
                      | Some tangents \<Rightarrow>
                          Inr (self2\<lparr>objects := dict_set (objects self2) name
                                 \<lparr>geometry_type = gtype,
                                  vertices = mesh_vertices mesh,
                                  triangles = mesh_faces mesh,
                                  vertex_normals = mesh_vertex_normals mesh,
                                  has_tangents = tangent_mask,
                                  vertex_tangents = tangents,
                                  material_uv = mesh_face_uvs mesh,
                                  face_material_id = mesh_material_assignments mesh,
                                  primitive_type = ptype,
                                  primitive_type_tensor =
                                    replicate num_faces (primitive_type_value ptype),
                                  reflectance_scatter = replicate num_faces 0,
                                  refractive_index = DEFAULT_REFRACTIVE_INDEX,
                                  refractive_index_tensor =
                                    replicate num_faces
                                      (of_int \<lfloor>DEFAULT_REFRACTIVE_INDEX\<rfloor>),
                                  transform = transform1\<rparr>\<rparr>))))"

subsection \<open>Stacking\<close>

text \<open>
  The matrices of a transform are four by four. \<open>mat3_apply\<close> is the product of the upper
  left three by three block with a vector, \<open>mat_col3\<close> the translation column.
\<close>

definition mat3_apply :: "real list list \<Rightarrow> vec3 \<Rightarrow> vec3" where
  "mat3_apply m v =
     (case v of (x, y, z) \<Rightarrow>
        (m ! 0 ! 0 * x + m ! 0 ! 1 * y + m ! 0 ! 2 * z,
         m ! 1 ! 0 * x + m ! 1 ! 1 * y + m ! 1 ! 2 * z,
         m ! 2 ! 0 * x + m ! 2 ! 1 * y + m ! 2 ! 2 * z))"

definition mat_col3 :: "real list list \<Rightarrow> vec3" where
  "mat_col3 m = (m ! 0 ! 3, m ! 1 ! 3, m ! 2 ! 3)"

definition vec_add :: "vec3 \<Rightarrow> vec3 \<Rightarrow> vec3" where
  "vec_add a b = (case (a, b) of ((x, y, z), (u, v, w)) \<Rightarrow> (x + u, y + v, z + w))"

text \<open>\<^verbatim>\<open>torch.nn.functional.normalize\<close>: division by the norm, at least \<open>1e-12\<close>.\<close>

definition normalize :: "vec3 \<Rightarrow> vec3" where
  "normalize v =
     (case v of (x, y, z) \<Rightarrow>
        let n = max (sqrt (x * x + y * y + z * z)) (1 / 10 ^ 12) in (x / n, y / n, z / n))"

definition apply_transform :: "Externals \<Rightarrow> OptixPrimitive \<Rightarrow> OptixPrimitive" where
  "apply_transform ext self =
     (let mm = model_matrix ext (transform self);
          transformed_verts = map (\<lambda>v. vec_add (mat3_apply mm v) (mat_col3 mm)) (vertices self);
          normal_matrix = rotation_matrix ext (transform self);
          transformed_normals = map (\<lambda>n. normalize (mat3_apply normal_matrix n))
                                    (vertex_normals self);
          transformed_tangents = map (\<lambda>n. normalize (mat3_apply normal_matrix n))
                                     (vertex_tangents self)
      in self\<lparr>vertices := transformed_verts,
              vertex_normals := transformed_normals,
              vertex_tangents := transformed_tangents,
              transform := identity_transform\<rparr>)"

text \<open>The offsets \<^verbatim>\<open>cumsum([0] + [number of vertices of p for p in primitives[:-1]])\<close>.\<close>

fun v_offsets :: "int \<Rightarrow> OptixPrimitive list \<Rightarrow> int list" where
  "v_offsets acc [] = []"
| "v_offsets acc (p # ps) = acc # v_offsets (acc + int (length (vertices p))) ps"

definition offset_triangle :: "int \<Rightarrow> triangle \<Rightarrow> triangle" where
  "offset_triangle off t = (case t of (a, b, c) \<Rightarrow> (a + off, b + off, c + off))"

text \<open>\<^verbatim>\<open>OptixPrimitive.stack(primitives)\<close>; \<^verbatim>\<open>primitives[0]\<close> of an empty list raises.\<close>

definition OptixPrimitive_stack :: "OptixPrimitive list \<Rightarrow> error + StackedFields" where
  "OptixPrimitive_stack ps =
     (if ps = [] then Inl IndexError
      else Inr
        \<lparr>sf_vertices = concat (map vertices ps),
         sf_triangles = concat (map (\<lambda>(p, off). map (offset_triangle off) (triangles p))
                                    (zip ps (v_offsets 0 ps))),
         sf_vertex_normals = concat (map vertex_normals ps),
         sf_has_tangents = concat (map has_tangents ps),
         sf_vertex_tangents = concat (map vertex_tangents ps),
         sf_material_uv = concat (map material_uv ps),
         sf_material_id = concat (map face_material_id ps),
         sf_primitive_type_tensor = concat (map primitive_type_tensor ps),
         sf_reflectance_scatter = concat (map reflectance_scatter ps),
         sf_refractive_index_tensor = concat (map refractive_index_tensor ps)\<rparr>)"

definition has_visible_objects :: "Primitives \<Rightarrow> bool" where
  "has_visible_objects self =
     (length (filter (\<lambda>p. primitive_type p \<noteq> NONE) (map snd (objects self))) > 0)"

definition recompute_stacked_buffers :: "Externals \<Rightarrow> Primitives \<Rightarrow> error + Primitives" where
  "recompute_stacked_buffers ext self =
     (let objs = map (\<lambda>p. apply_transform ext p) (map snd (objects self));
          objs' = map (\<lambda>obj.
                    let num_faces = length (triangles obj)
                    in obj\<lparr>primitive_type_tensor :=
                              replicate num_faces (primitive_type_value (primitive_type obj)),
                            refractive_index_tensor :=
                              replicate num_faces (refractive_index obj)\<rparr>) objs;
          self1 = self\<lparr>stacked_fields := None\<rparr>
      in if has_visible_objects self1
         then (case OptixPrimitive_stack (filter (\<lambda>p. primitive_type p \<noteq> NONE) objs') of
                 Inl e \<Rightarrow> Inl e
               | Inr sf \<Rightarrow> Inr (self1\<lparr>stacked_fields := Some sf\<rparr>))
         else Inr self1)"

definition build_mesh_acc ::
    "Tracer \<Rightarrow> vec3 list \<Rightarrow> triangle list \<Rightarrow> bool \<Rightarrow> bool \<Rightarrow> Tracer" where
  "build_mesh_acc tr vs fs rebuild allow_update =
     tr\<lparr>mesh_acc_builds := mesh_acc_builds tr @
          [\<lparr>arg_mesh_vertices = vs, arg_mesh_faces = fs, arg_rebuild = rebuild,
            arg_allow_update = allow_update\<rparr>]\<rparr>"

text \<open>
  \<^verbatim>\<open>rebuild_bvh_if_needed(force=False, rebuild=True)\<close>. With no visible object the
  accelerator is built from a placeholder of three zero vertices and one zero face.
\<close>

definition rebuild_bvh_if_needed ::
    "Externals \<Rightarrow> Primitives \<Rightarrow> bool \<Rightarrow> bool \<Rightarrow> error + Primitives" where
  "rebuild_bvh_if_needed ext self force rebuild =
     (if dirty self \<or> force
      then
        (if has_visible_objects self
         then
           (case recompute_stacked_buffers ext self of
              Inl e \<Rightarrow> Inl e
            | Inr self1 \<Rightarrow>
                (case stacked_fields self1 of
                   None \<Rightarrow> Inl AttributeError
                 | Some sf \<Rightarrow>
                     Inr (self1\<lparr>tracer := build_mesh_acc (tracer self1) (sf_vertices sf)
                                             (sf_triangles sf) rebuild True,
                                dirty := False\<rparr>)))
         else
           Inr (self\<lparr>tracer := build_mesh_acc (tracer self) (replicate 3 (0, 0, 0)) [(0, 0, 0)]
                                   True True,
                      dirty := False\<rparr>))
      else Inr (self\<lparr>dirty := False\<rparr>))"

text \<open>\<^verbatim>\<open>remove_primitive(name)\<close> and \<^verbatim>\<open>duplicate_primitive(name)\<close>.\<close>

definition remove_primitive :: "Externals \<Rightarrow> Primitives \<Rightarrow> string \<Rightarrow> error + Primitives" where
  "remove_primitive ext self name =
     (case map_of (objects self) name of
        None \<Rightarrow> Inl KeyError
      | Some _ \<Rightarrow> rebuild_bvh_if_needed ext (self\<lparr>objects := dict_del (objects self) name\<rparr>)
                    True True)"

definition duplicate_primitive :: "Externals \<Rightarrow> Primitives \<Rightarrow> string \<Rightarrow> error + Primitives" where
  "duplicate_primitive ext self name =
     (case map_of (objects self) name of
        None \<Rightarrow> Inl KeyError
      | Some prim \<Rightarrow>
          (case instance_counter self (geometry_type prim) of
             None \<Rightarrow> Inl KeyError
           | Some c \<Rightarrow>
               let self1 = self\<lparr>instance_counter :=
                                   (instance_counter self)(geometry_type prim \<mapsto> c + 1)\<rparr>;
                   name' = geometry_type prim @ '' '' @ str_int (c + 1)
               in rebuild_bvh_if_needed ext
                    (self1\<lparr>objects := dict_set (objects self1) name' prim\<rparr>) True True))"

section \<open>Renderer\<close>

subsection \<open>Tensor operations of the engine\<close>

text \<open>
  \<^verbatim>\<open>torch.pow\<close> on non-negative colours, as the real power; \<^verbatim>\<open>torch.round\<close> rounds
  halves to the even neighbour.
\<close>

definition torch_pow :: "real \<Rightarrow> real \<Rightarrow> real" where
  "torch_pow x y = x powr y"

definition torch_round :: "real \<Rightarrow> real" where
  "torch_round x =
     (let f = \<lfloor>x\<rfloor>; d = x - of_int f
      in if d < 1 / 2 then of_int f
         else if d > 1 / 2 then of_int (f + 1)
         else if even f then of_int f else of_int (f + 1))"

definition batch_map :: "(real \<Rightarrow> real) \<Rightarrow> batch \<Rightarrow> batch" where
  "batch_map f b = map (map (map f)) b"

definition frame_zip :: "(real \<Rightarrow> real \<Rightarrow> real) \<Rightarrow> frame \<Rightarrow> frame \<Rightarrow> frame" where
  "frame_zip f a b = map2 (map2 f) a b"

text \<open>
  A binary element-wise operation on two batches: equal batch sizes pair up, a batch of
  one frame is broadcast against the other, any other pair of sizes is an error.
\<close>

definition batch_zip :: "(real \<Rightarrow> real \<Rightarrow> real) \<Rightarrow> batch \<Rightarrow> batch \<Rightarrow> error + batch" where
  "batch_zip f a b =
     (if length a = length b then Inr (map2 (frame_zip f) a b)
      else if length a = 1 then Inr (map (\<lambda>y. frame_zip f (hd a) y) b)
      else if length b = 1 then Inr (map (\<lambda>x. frame_zip f x (hd b)) a)
      else Inl RuntimeError)"

text \<open>\<^verbatim>\<open>t.sum(dim=0).unsqueeze(0)\<close> and \<^verbatim>\<open>t.mean(dim=0).unsqueeze(0)\<close> of a traced batch.\<close>

fun sum_dim0 :: "batch \<Rightarrow> frame" where
  "sum_dim0 [] = []"
| "sum_dim0 [f] = f"
| "sum_dim0 (f # g # fs) = frame_zip (+) f (sum_dim0 (g # fs))"

definition sum_dim0_unsqueeze :: "batch \<Rightarrow> batch" where
  "sum_dim0_unsqueeze b = [sum_dim0 b]"

definition mean_dim0_unsqueeze :: "batch \<Rightarrow> batch" where
  "mean_dim0_unsqueeze b = [map (map (\<lambda>x. x / real (length b))) (sum_dim0 b)]"

text \<open>
  \<^verbatim>\<open>pred_rgb += (1.0 - pred_opacity)\<close>: the single opacity channel of a pixel is added to
  each of its colour channels.
\<close>

definition add_opacity_complement :: "batch \<Rightarrow> batch \<Rightarrow> batch" where
  "add_opacity_complement rgb_b op_b =
     map2 (map2 (\<lambda>p ob. map2 (\<lambda>c a. c + (1.0 - a)) p
                          (if length ob = 1 then replicate (length p) (hd ob) else ob)))
          rgb_b op_b"

definition torch_clamp :: "real \<Rightarrow> real \<Rightarrow> real \<Rightarrow> real" where
  "torch_clamp lo hi x = min (max x lo) hi"

text \<open>
  \<^verbatim>\<open>mask[None, :, :, 0]\<close> of a mask of shape height by width by channels, as the list of
  its pixels, and \<^verbatim>\<open>t[mask] = 0.0\<close>: the boolean index has shape 1 by height by width
  and must match the leading dimensions of \<open>t\<close>, otherwise indexing raises.
\<close>

definition mask_plane :: "bool tensor \<Rightarrow> error + bool list" where
  "mask_plane m =
     (case shape m of
        [h, w, c] \<Rightarrow>
          if c = 0 then Inl IndexError
          else Inr (map (\<lambda>k. elems m ! (k * c)) [0 ..< h * w])
      | _ \<Rightarrow> Inl IndexError)"

definition masked_zero :: "bool list \<Rightarrow> batch \<Rightarrow> error + batch" where
  "masked_zero m t =
     (case t of
        [f] \<Rightarrow>
          if length f = length m
          then Inr [map2 (\<lambda>b p. if b then map (\<lambda>_. 0) p else p) m f]
          else Inl IndexError
      | _ \<Rightarrow> Inl IndexError)"

text \<open>\<^verbatim>\<open>t.reshape(shape)\<close>, \<^verbatim>\<open>t.squeeze(-1)\<close> and \<^verbatim>\<open>torch.cat(ts, dim=0)\<close>.\<close>

definition torch_reshape :: "'a tensor \<Rightarrow> nat list \<Rightarrow> error + 'a tensor" where
  "torch_reshape t shp =
     (if prod_list shp = length (elems t) then Inr (t\<lparr>shape := shp\<rparr>) else Inl RuntimeError)"

definition squeeze_last :: "'a tensor \<Rightarrow> 'a tensor" where
  "squeeze_last t =
     (if shape t \<noteq> [] \<and> last (shape t) = 1 then t\<lparr>shape := butlast (shape t)\<rparr> else t)"

definition torch_cat :: "'a tensor list \<Rightarrow> error + 'a tensor" where
  "torch_cat ts =
     (case ts of
        [] \<Rightarrow> Inl RuntimeError
      | t # rest \<Rightarrow>
          if shape t \<noteq> [] \<and> list_all (\<lambda>u. shape u \<noteq> [] \<and> tl (shape u) = tl (shape t)) rest
          then Inr \<lparr>shape = sum_list (map (\<lambda>u. hd (shape u)) ts) # tl (shape t),
                    elems = concat (map elems ts)\<rparr>
          else Inl RuntimeError)"

subsection \<open>Accumulation\<close>

text \<open>
  \<^verbatim>\<open>_accumulate_to_buffer(prev_frames, new_frame, num_frames_accumulated, gamma,
  batch_size)\<close>. \<^verbatim>\<open>1.0 / gamma\<close> divides Python floats, so a zero \<open>gamma\<close> raises there.
\<close>

definition accumulate_to_buffer ::
    "batch \<Rightarrow> batch \<Rightarrow> int \<Rightarrow> real \<Rightarrow> int \<Rightarrow> error + batch" where
  "accumulate_to_buffer prev_frames new_frame num_frames_accumulated gamma bsize =
     (let prev_lin = batch_map (\<lambda>x. torch_pow x gamma) prev_frames
      in case batch_zip (+) (batch_map (\<lambda>x. x * of_int num_frames_accumulated) prev_lin)
                new_frame of
           Inl e \<Rightarrow> Inl e
         | Inr summed \<Rightarrow>
             let buffer = batch_map (\<lambda>x. x / of_int (num_frames_accumulated + bsize)) summed
             in if gamma = 0 then Inl ZeroDivisionError
                else Inr (batch_map (\<lambda>x. torch_pow x (1.0 / gamma)) buffer))"

subsection \<open>Hybrid trace\<close>

text \<open>
  The last statement before clamping in \<^verbatim>\<open>_render_playground_hybrid\<close>:
  \<^verbatim>\<open>self.frame_id = self.frame_id + self.spp.batch_size if self.frame_id <= (2 ** 31 - 1) else 0\<close>.
\<close>

definition advance_frame_id :: "int \<Rightarrow> int \<Rightarrow> int" where
  "advance_frame_id fid bsize = (if fid \<le> 2 ^ 31 - 1 then fid + bsize else 0)"

definition playground_render_opts :: "Primitives \<Rightarrow> int" where
  "playground_render_opts prims =
     (let opts0 = 0;
          opts1 = (if use_smooth_normals prims then opts0 OR SMOOTH_NORMALS else opts0);
          opts2 = (if disable_gaussian_tracing prims then opts1 OR DISABLE_GAUSSIAN_TRACING
                   else opts1);
          opts3 = (if disable_pbr_textures prims then opts2 OR DISABLE_PBR_TEXTURES else opts2)
      in opts3)"

definition render_playground_hybrid ::
    "Externals \<Rightarrow> Engine3DGRUT \<Rightarrow> real tensor \<Rightarrow> real tensor
       \<Rightarrow> error + RenderResults \<times> Engine3DGRUT" where
  "render_playground_hybrid ext self rays_o rays_d =
     (let opts = playground_render_opts (primitives self)
      in case rebuild_bvh_if_needed ext (primitives self) False True of
           Inl e \<Rightarrow> Inl e
         | Inr prims \<Rightarrow>
             let (background_color, envmap1) =
                   (if force_white_bg prims then ((1, 1, 1), None)
                    else (case mog_background_color ext of
                            Some c \<Rightarrow> (c, envmap self)
                          | None \<Rightarrow> ((0, 0, 0), envmap self)))
             in (case stacked_fields prims of
                   None \<Rightarrow> Inl AttributeError
                 | Some sf \<Rightarrow>
                     let rendered_results = render_playground ext
                           \<lparr>arg_ray_o = rays_o, arg_ray_d = rays_d,
                            arg_playground_opts = opts,
                            arg_faces = sf_triangles sf,
                            arg_vertex_normals = sf_vertex_normals sf,
                            arg_vertex_tangents = sf_vertex_tangents sf,
                            arg_vertex_tangents_mask = sf_has_tangents sf,
                            arg_primitive_type = sf_primitive_type_tensor sf,
                            arg_frame_id = frame_id self,
                            arg_material_uv = sf_material_uv sf,
                            arg_material_id = sf_material_id sf,
                            arg_materials = sort_key material_id
                                              (map snd (registered_materials prims)),
                            arg_is_sync_materials = is_materials_dirty self,
                            arg_refractive_index = sf_refractive_index_tensor sf,
                            arg_background_color = background_color,
                            arg_envmap = envmap1,
                            arg_enable_envmap = enable_envmap prims,
                            arg_use_envmap_as_background = use_envmap_as_background prims,
                            arg_max_pbr_bounces = max_pbr_bounces self\<rparr>;
                         rgb0 = pred_rgb rendered_results;
                         opacity0 = pred_opacity rendered_results;
                         rgb1 = (if envmap1 = None \<or> \<not> use_envmap_as_background prims
                                 then (if force_white_bg prims
                                       then add_opacity_complement rgb0 opacity0
                                       else fst (mog_background ext (last_ray_d rendered_results)
                                                   rgb0 opacity0))
                                 else rgb0);
                         self1 = self\<lparr>primitives := prims,
                                       is_materials_dirty := False,
                                       frame_id := advance_frame_id (frame_id self)
                                                     (batch_size (spp self))\<rparr>;
                         rgb2 = batch_map (torch_clamp 0.0 1.0) rgb1
                     in Inr (rendered_results\<lparr>pred_rgb := rgb2\<rparr>, self1)))"

subsection \<open>Ray generation\<close>

definition Camera_cuda :: "Camera \<Rightarrow> Camera" where
  "Camera_cuda camera = camera\<lparr>device := CUDA\<rparr>"

text \<open>
  \<^verbatim>\<open>pixel_x += jitter[:, :, 0]\<close> and \<^verbatim>\<open>pixel_y += jitter[:, :, 1]\<close>; the jitter is the list of
  the per-pixel offsets.
\<close>

definition add_jitter ::
    "real tensor \<times> real tensor \<Rightarrow> (real \<times> real) list option
       \<Rightarrow> error + real tensor \<times> real tensor" where
  "add_jitter grid jitter =
     (case (grid, jitter) of
        (_, None) \<Rightarrow> Inr grid
      | ((pix_y, pix_x), Some j) \<Rightarrow>
          if length (elems pix_x) = length j \<and> length (elems pix_y) = length j
          then Inr (pix_y\<lparr>elems := map2 (+) (elems pix_y) (map snd j)\<rparr>,
                    pix_x\<lparr>elems := map2 (+) (elems pix_x) (map fst j)\<rparr>)
          else Inl RuntimeError)"

definition round_pixels :: "real tensor \<Rightarrow> real tensor" where
  "round_pixels t = squeeze_last (t\<lparr>elems := map (\<lambda>x. torch_round (x - 0.5)) (elems t)\<rparr>)"

definition raygen_pinhole ::
    "Externals \<Rightarrow> Camera \<Rightarrow> (real \<times> real) list option \<Rightarrow> error + RayPack" where
  "raygen_pinhole ext camera jitter =
     (case add_jitter (generate_centered_pixel_coords ext (width camera) (height camera)) jitter of
        Inl e \<Rightarrow> Inl e
      | Inr (pix_y, pix_x) \<Rightarrow>
          (case generate_pinhole_rays ext camera (pix_y, pix_x) of (rays_o, rays_d) \<Rightarrow>
             (case torch_reshape rays_o [1, height camera, width camera, 3] of
                Inl e \<Rightarrow> Inl e
              | Inr ro \<Rightarrow>
                  (case torch_reshape rays_d [1, height camera, width camera, 3] of
                     Inl e \<Rightarrow> Inl e
                   | Inr rd \<Rightarrow>
                       Inr \<lparr>rays_ori = ro, rays_dir = rd,
                            pixel_x = Some (round_pixels pix_x),
                            pixel_y = Some (round_pixels pix_y),
                            mask = None\<rparr>))))"

definition raygen_fisheye ::
    "Externals \<Rightarrow> Camera \<Rightarrow> (real \<times> real) list option \<Rightarrow> error + RayPack" where
  "raygen_fisheye ext camera jitter =
     (case add_jitter (generate_centered_pixel_coords ext (width camera) (height camera)) jitter of
        Inl e \<Rightarrow> Inl e
      | Inr (pix_y, pix_x) \<Rightarrow>
          (case generate_fisheye_rays ext camera (pix_y, pix_x) of (rays_o, rays_d, msk) \<Rightarrow>
             (case torch_reshape rays_o [1, height camera, width camera, 3] of
                Inl e \<Rightarrow> Inl e
              | Inr ro \<Rightarrow>
                  (case torch_reshape rays_d [1, height camera, width camera, 3] of
                     Inl e \<Rightarrow> Inl e
                   | Inr rd \<Rightarrow>
                       (case torch_reshape msk [height camera, width camera, 1] of
                          Inl e \<Rightarrow> Inl e
                        | Inr m \<Rightarrow>
                            Inr \<lparr>rays_ori = ro, rays_dir = rd,
                                 pixel_x = Some (round_pixels pix_x),
                                 pixel_y = Some (round_pixels pix_y),
                                 mask = Some m\<rparr>)))))"

text \<open>
  The loop of \<^verbatim>\<open>raygen\<close>, once per sample of the batch: the jitter is drawn from the
  antialiasing controller, which changes it, then the camera model is chosen by name.
\<close>

fun raygen_loop ::
    "Externals \<Rightarrow> string \<Rightarrow> Camera \<Rightarrow> bool \<Rightarrow> nat \<Rightarrow> SPP \<Rightarrow> error + RayPack list \<times> SPP" where
  "raygen_loop ext ctype camera with_spp 0 sp = Inr ([], sp)"
| "raygen_loop ext ctype camera with_spp (Suc n) sp =
     (let (jitter, sp1) =
            (if with_spp
             then (case spp_call ext sp (height camera) (width camera) of
                     (j, sp') \<Rightarrow> (Some j, sp'))
             else (None, sp))
      in case (if ctype = ''Pinhole'' then raygen_pinhole ext camera jitter
               else if ctype = ''Fisheye'' then raygen_fisheye ext camera jitter
               else Inl ValueError) of
           Inl e \<Rightarrow> Inl e
         | Inr next_rays \<Rightarrow>
             (case raygen_loop ext ctype camera with_spp n sp1 of
                Inl e \<Rightarrow> Inl e
              | Inr (rays, sp2) \<Rightarrow> Inr (next_rays # rays, sp2)))"

definition raygen ::
    "Externals \<Rightarrow> Engine3DGRUT \<Rightarrow> Camera \<Rightarrow> bool \<Rightarrow> error + RayPack \<times> Engine3DGRUT" where
  "raygen ext self camera with_spp =
     (let ray_batch_size = (if \<not> with_spp then 1 else batch_size (spp self))
      in case raygen_loop ext (camera_type self) camera with_spp (nat ray_batch_size) (spp self) of
           Inl e \<Rightarrow> Inl e
         | Inr (rays, sp) \<Rightarrow>
             (case rays of
                [] \<Rightarrow> Inl IndexError
              | r0 # _ \<Rightarrow>
                  (case torch_cat (map rays_ori rays) of
                     Inl e \<Rightarrow> Inl e
                   | Inr ro \<Rightarrow>
                       (case torch_cat (map rays_dir rays) of
                          Inl e \<Rightarrow> Inl e
                        | Inr rd \<Rightarrow>
                            Inr (\<lparr>rays_ori = ro, rays_dir = rd, pixel_x = pixel_x r0,
                                  pixel_y = pixel_y r0, mask = mask r0\<rparr>,
                                 self\<lparr>spp := sp\<rparr>)))))"

subsection \<open>Progressive passes\<close>

text \<open>
  The choice of the trace, as \<^verbatim>\<open>render_pass\<close> and both buffer functions make it: the
  volumetric model alone when the primitives are disabled or none is visible, the hybrid
  trace otherwise.
\<close>

definition trace_rays ::
    "Externals \<Rightarrow> Engine3DGRUT \<Rightarrow> real tensor \<Rightarrow> real tensor
       \<Rightarrow> error + RenderResults \<times> Engine3DGRUT" where
  "trace_rays ext self rays_o rays_d =
     (if \<not> enabled (primitives self) \<or> \<not> has_visible_objects (primitives self)
      then Inr (mog_trace ext rays_o rays_d, self)
      else render_playground_hybrid ext self rays_o rays_d)"

text \<open>The plain running mean of the opacity: \<^verbatim>\<open>(opacity * i + new) / (i + b)\<close>.\<close>

definition accumulate_opacity :: "batch \<Rightarrow> batch \<Rightarrow> int \<Rightarrow> int \<Rightarrow> error + batch" where
  "accumulate_opacity prev new i b =
     (case batch_zip (+) (batch_map (\<lambda>x. x * of_int i) prev) new of
        Inl e \<Rightarrow> Inl e
      | Inr summed \<Rightarrow> Inr (batch_map (\<lambda>x. x / of_int (i + b)) summed))"

definition render_depth_of_field_buffer ::
    "Externals \<Rightarrow> Engine3DGRUT \<Rightarrow> AccumulationBuffers \<Rightarrow> Camera \<Rightarrow> RayPack
       \<Rightarrow> error + AccumulationBuffers \<times> Engine3DGRUT" where
  "render_depth_of_field_buffer ext self rb camera rays =
     (if use_depth_of_field self \<and> dof_has_more_to_accumulate ext (depth_of_field self)
      then
        (let i = spp_accumulated_for_frame (depth_of_field self);
             ((dof_rays_ori, dof_rays_dir), dof1) =
                dof_call ext (depth_of_field self) (cam_R camera) rays;
             self1 = self\<lparr>depth_of_field := dof1\<rparr>
         in case trace_rays ext self1 dof_rays_ori dof_rays_dir of
              Inl e \<Rightarrow> Inl e
            | Inr (dof_rb, self2) \<Rightarrow>
                (case accumulate_to_buffer (rgb rb) (pred_rgb dof_rb) i
                        (gamma_correction self2) 1 of
                   Inl e \<Rightarrow> Inl e
                 | Inr rgb1 \<Rightarrow>
                     (case accumulate_opacity (opacity rb) (pred_opacity dof_rb) i 1 of
                        Inl e \<Rightarrow> Inl e
                      | Inr opacity1 \<Rightarrow> Inr (\<lparr>rgb = rgb1, opacity = opacity1\<rparr>, self2))))
      else Inr (rb, self))"

definition render_spp_buffer ::
    "Externals \<Rightarrow> Engine3DGRUT \<Rightarrow> AccumulationBuffers \<Rightarrow> RayPack
       \<Rightarrow> error + AccumulationBuffers \<times> Engine3DGRUT" where
  "render_spp_buffer ext self rb rays =
     (if use_spp self \<and> spp_has_more_to_accumulate ext (spp self)
      then
        (let i = spp_accumulated_for_frame (spp self)
         in case trace_rays ext self (rays_ori rays) (rays_dir rays) of
              Inl e \<Rightarrow> Inl e
            | Inr (spp_rb, self1) \<Rightarrow>
                let batch_rgb = sum_dim0_unsqueeze (pred_rgb spp_rb)
                in (case accumulate_to_buffer (rgb rb) batch_rgb i (gamma_correction self1)
                           (batch_size (spp self1)) of
                      Inl e \<Rightarrow> Inl e
                    | Inr rgb1 \<Rightarrow>
                        (case accumulate_opacity (opacity rb) (pred_opacity spp_rb) i
                                (batch_size (spp self1)) of
                           Inl e \<Rightarrow> Inl e
                         | Inr opacity1 \<Rightarrow> Inr (\<lparr>rgb = rgb1, opacity = opacity1\<rparr>, self1))))
      else Inr (rb, self))"

definition cache_last_state ::
    "Engine3DGRUT \<Rightarrow> Camera \<Rightarrow> RenderBuffers \<Rightarrow> nat \<times> nat \<Rightarrow> Engine3DGRUT" where
  "cache_last_state self camera renderbuffers csize =
     self\<lparr>last_state := Some \<lparr>canvas_size = csize,
                               ls_camera = view_matrix camera,
                               ls_rgb = rgb renderbuffers,
                               ls_rgb_buffer = rgb_buffer renderbuffers,
                               ls_opacity = opacity renderbuffers\<rparr>\<rparr>"

text \<open>
  The first pass: one trace, inverse gamma, the mean over the batch, and both controllers
  reset. \<^verbatim>\<open>1.0 / self.gamma_correction\<close> divides Python floats.
\<close>

definition render_first_pass ::
    "Externals \<Rightarrow> Engine3DGRUT \<Rightarrow> RayPack \<Rightarrow> error + AccumulationBuffers \<times> Engine3DGRUT" where
  "render_first_pass ext self rays =
     (case trace_rays ext self (rays_ori rays) (rays_dir rays) of
        Inl e \<Rightarrow> Inl e
      | Inr (rb, self1) \<Rightarrow>
          if gamma_correction self1 = 0 then Inl ZeroDivisionError
          else
            let rgb1 = batch_map (\<lambda>x. torch_pow x (1.0 / gamma_correction self1)) (pred_rgb rb);
                rgb2 = mean_dim0_unsqueeze rgb1;
                opacity1 = mean_dim0_unsqueeze (pred_opacity rb);
                self2 = self1\<lparr>spp := spp_reset_accumulation ext (spp self1)\<rparr>;
                self3 = self2\<lparr>depth_of_field :=
                                  dof_reset_accumulation ext (depth_of_field self2)\<rparr>
            in Inr (\<lparr>rgb = rgb2, opacity = opacity1\<rparr>, self3))"

text \<open>
  An accumulating pass starts from the cached noisy buffer and opacity; reading
  \<^verbatim>\<open>last_state['rgb_buffer']\<close> before any pass has completed is a \<^verbatim>\<open>KeyError\<close>.
\<close>

definition render_accumulating_pass ::
    "Externals \<Rightarrow> Engine3DGRUT \<Rightarrow> Camera \<Rightarrow> RayPack
       \<Rightarrow> error + AccumulationBuffers \<times> Engine3DGRUT" where
  "render_accumulating_pass ext self camera rays =
     (case last_state self of
        None \<Rightarrow> Inl KeyError
      | Some ls \<Rightarrow>
          let rb = \<lparr>rgb = ls_rgb_buffer ls, opacity = ls_opacity ls\<rparr>
          in if use_depth_of_field self then render_depth_of_field_buffer ext self rb camera rays
             else if use_spp self then render_spp_buffer ext self rb rays
             else Inr (rb, self))"

text \<open>
  The end of \<^verbatim>\<open>render_pass\<close>: the noisy buffer is kept under \<^verbatim>\<open>rgb_buffer\<close>, the colour
  is denoised if the denoiser is on, and with a mask the three buffers are zeroed at the
  masked pixels, in the order colour, noisy buffer, opacity.
\<close>

definition finish_pass ::
    "Externals \<Rightarrow> Engine3DGRUT \<Rightarrow> RayPack \<Rightarrow> AccumulationBuffers \<Rightarrow> error + RenderBuffers" where
  "finish_pass ext self rays rb =
     (let noisy = rgb rb;
          shown = (if use_optix_denoiser self then denoise ext (rgb rb) else rgb rb)
      in case mask rays of
           None \<Rightarrow> Inr \<lparr>rgb = shown, opacity = opacity rb, rgb_buffer = noisy\<rparr>
         | Some m \<Rightarrow>
             (case mask_plane m of
                Inl e \<Rightarrow> Inl e
              | Inr msk \<Rightarrow>
                  (case masked_zero msk shown of
                     Inl e \<Rightarrow> Inl e
                   | Inr shown' \<Rightarrow>
                       (case masked_zero msk noisy of
                          Inl e \<Rightarrow> Inl e
                        | Inr noisy' \<Rightarrow>
                            (case masked_zero msk (opacity rb) of
                               Inl e \<Rightarrow> Inl e
                             | Inr opacity' \<Rightarrow>
                                 Inr \<lparr>rgb = shown', opacity = opacity',
                                      rgb_buffer = noisy'\<rparr>)))))"

definition render_pass ::
    "Externals \<Rightarrow> Engine3DGRUT \<Rightarrow> Camera \<Rightarrow> bool \<Rightarrow> error + RenderBuffers \<times> Engine3DGRUT" where
  "render_pass ext self camera0 is_first_pass =
     (let camera = (if device camera0 = CPU then Camera_cuda camera0 else camera0);
          is_use_spp = (\<not> is_first_pass \<and> \<not> use_depth_of_field self \<and> use_spp self)
      in case raygen ext self camera is_use_spp of
           Inl e \<Rightarrow> Inl e
         | Inr (rays, self1) \<Rightarrow>
             (case (if is_first_pass then render_first_pass ext self1 rays
                    else render_accumulating_pass ext self1 camera rays) of
                Inl e \<Rightarrow> Inl e
              | Inr (rb, self2) \<Rightarrow>
                  (case finish_pass ext self2 rays rb of
                     Inl e \<Rightarrow> Inl e
                   | Inr rb' \<Rightarrow>
                       Inr (rb', cache_last_state self2 camera rb'
                                   (height camera, width camera)))))"

definition has_progressive_effects_to_render :: "Engine3DGRUT \<Rightarrow> bool" where
  "has_progressive_effects_to_render self =
     (let has_dof_buffers_to_render =
            (use_depth_of_field self \<and>
             spp_accumulated_for_frame (depth_of_field self) \<le> spp_target (depth_of_field self));
          has_spp_buffers_to_render =
            (\<not> use_depth_of_field self \<and> use_spp self \<and>
             spp_accumulated_for_frame (spp self) \<le> spp_target (spp self))
      in has_dof_buffers_to_render \<or> has_spp_buffers_to_render)"

section \<open>Properties: definitions\<close>

subsection \<open>Chunks of a ray pack\<close>

text \<open>
  The spec's words for \<^verbatim>\<open>split\<close>: a pack is flat when both ray arrays are two-dimensional
  (rays by components); \<open>num_rays\<close> is the size of the ray axis; the \<open>i\<close>-th chunk of size
  \<open>sz\<close> holds the rays from \<open>i * sz\<close> on, \<open>sz\<close> of them or as many as are left.
\<close>

definition flat :: "RayPack \<Rightarrow> bool" where
  "flat p \<longleftrightarrow> ndim (rays_ori p) = 2 \<and> ndim (rays_dir p) = 2"

definition num_rays :: "'a tensor \<Rightarrow> nat" where
  "num_rays t = hd (shape t)"

definition ray_chunk :: "RayPack \<Rightarrow> nat \<Rightarrow> nat \<Rightarrow> RayPack" where
  "ray_chunk p sz i =
     \<lparr>rays_ori = narrow (rays_ori p) (i * sz) (min sz (num_rays (rays_ori p) - i * sz)),
      rays_dir = narrow (rays_dir p) (i * sz) (min sz (num_rays (rays_dir p) - i * sz)),
      pixel_x = None, pixel_y = None, mask = None\<rparr>"

definition demo_pack :: RayPack where
  "demo_pack =
     \<lparr>rays_ori = \<lparr>shape = [3, 3], elems = [0, 0, 0, 1, 1, 1, 2, 2, 2]\<rparr>,
      rays_dir = \<lparr>shape = [3, 3], elems = [0, 0, 1, 0, 1, 0, 1, 0, 0]\<rparr>,
      pixel_x = None, pixel_y = None, mask = None\<rparr>"

subsection \<open>Which progress counters the termination predicate reads\<close>

text \<open>
  \<^verbatim>\<open>has_progressive_effects_to_render\<close> again, with the list of the controllers whose
  \<^verbatim>\<open>spp_accumulated_for_frame\<close> it reads: Python's \<^verbatim>\<open>and\<close> evaluates its right operand
  only when the left one is true.
\<close>

datatype counter_read = DoF_counter | SPP_counter

definition has_progressive_effects_to_render_reads ::
    "Engine3DGRUT \<Rightarrow> bool \<times> counter_read list" where
  "has_progressive_effects_to_render_reads self =
     (let (has_dof_buffers_to_render, reads1) =
            (if use_depth_of_field self
             then (spp_accumulated_for_frame (depth_of_field self)
                     \<le> spp_target (depth_of_field self), [DoF_counter])
             else (False, []));
          (has_spp_buffers_to_render, reads2) =
            (if \<not> use_depth_of_field self
             then (if use_spp self
                   then (spp_accumulated_for_frame (spp self) \<le> spp_target (spp self),
                         [SPP_counter])
                   else (False, []))
             else (False, []))
      in (has_dof_buffers_to_render \<or> has_spp_buffers_to_render, reads1 @ reads2))"

subsection \<open>A test scene\<close>

text \<open>
  Mock collaborators on an image of one row and two pixels: every trace returns white,
  opaque frames, one per ray grid; the denoiser replaces every pixel of a frame by the
  frame's mean; the controllers count their calls; the fish-eye camera masks the first
  pixel.
\<close>

definition demo_results :: "real tensor \<Rightarrow> RenderResults" where
  "demo_results rays_o =
     \<lparr>pred_rgb = replicate (num_rays rays_o) [[1, 1, 1], [1, 1, 1]],
      pred_opacity = replicate (num_rays rays_o) [[1], [1]],
      last_ray_d = replicate (num_rays rays_o) [[0, 0, 1], [0, 0, 1]]\<rparr>"

fun pixel_sum :: "frame \<Rightarrow> pixel" where
  "pixel_sum [] = []"
| "pixel_sum [p] = p"
| "pixel_sum (p # q # ps) = map2 (+) p (pixel_sum (q # ps))"

definition box_blur :: "batch \<Rightarrow> batch" where
  "box_blur b = map (\<lambda>f. map (\<lambda>_. map (\<lambda>x. x / real (length f)) (pixel_sum f)) f) b"

definition identity4 :: "real list list" where
  "identity4 = [[1, 0, 0, 0], [0, 1, 0, 0], [0, 0, 1, 0], [0, 0, 0, 1]]"

definition demo_mesh :: Mesh where
  "demo_mesh =
     \<lparr>mesh_vertices = [(0, 0, 0), (4, 0, 0), (0, 2, 0)],
      mesh_faces = [(0, 1, 2)],
      mesh_vertex_normals = replicate 3 (0, 0, 1),
      mesh_vertex_tangents = Some (replicate 3 (1, 0, 0)),
      mesh_face_uvs = [((0, 0), (1, 0), (0, 1))],
      mesh_material_assignments = [0]\<rparr>"

definition demo_ext :: Externals where
  "demo_ext =
     \<lparr>load_mesh = (\<lambda>_. demo_mesh),
      load_materials = (\<lambda>_. []),
      load_missing_material_info = (\<lambda>_ ms. ms),
      create_procedural_mesh = (\<lambda>vs fs uvs.
        \<lparr>mesh_vertices = vs, mesh_faces = fs,
         mesh_vertex_normals = map (\<lambda>_. (0, 0, 1)) vs,
         mesh_vertex_tangents = Some (map (\<lambda>_. (1, 0, 0)) vs),
         mesh_face_uvs = uvs,
         mesh_material_assignments = map (\<lambda>_. 0) fs\<rparr>),
      model_matrix = (\<lambda>_. identity4),
      rotation_matrix = (\<lambda>_. identity4),
      render_playground = (\<lambda>a. demo_results (arg_ray_o a)),
      denoise = box_blur,
      mog_trace = (\<lambda>ro rd. demo_results ro),
      mog_background_color = None,
      mog_background = (\<lambda>d c a. (c, a)),
      spp_call = (\<lambda>sp h w. (replicate (h * w) (0, 0),
                    sp\<lparr>spp_accumulated_for_frame := spp_accumulated_for_frame sp + 1\<rparr>)),
      spp_has_more_to_accumulate = (\<lambda>sp. spp_accumulated_for_frame sp \<le> spp_target sp),
      spp_reset_accumulation = (\<lambda>sp. sp\<lparr>spp_accumulated_for_frame := 0\<rparr>),
      dof_call = (\<lambda>d r rays. ((rays_ori rays, rays_dir rays),
                    d\<lparr>spp_accumulated_for_frame := spp_accumulated_for_frame d + 1\<rparr>)),
      dof_has_more_to_accumulate = (\<lambda>d. spp_accumulated_for_frame d \<le> spp_target d),
      dof_reset_accumulation = (\<lambda>d. d\<lparr>spp_accumulated_for_frame := 0\<rparr>),
      generate_centered_pixel_coords = (\<lambda>w h.
        (\<lparr>shape = [h, w], elems = replicate (h * w) 0.5\<rparr>,
         \<lparr>shape = [h, w], elems = replicate (h * w) 0.5\<rparr>)),
      generate_pinhole_rays = (\<lambda>cam g.
        (\<lparr>shape = [height cam * width cam, 3], elems = replicate (height cam * width cam * 3) 0\<rparr>,
         \<lparr>shape = [height cam * width cam, 3], elems = replicate (height cam * width cam * 3) 1\<rparr>)),
      generate_fisheye_rays = (\<lambda>cam g.
        (\<lparr>shape = [height cam * width cam, 3], elems = replicate (height cam * width cam * 3) 0\<rparr>,
         \<lparr>shape = [height cam * width cam, 3], elems = replicate (height cam * width cam * 3) 1\<rparr>,
         \<lparr>shape = [height cam * width cam],
           elems = map (\<lambda>k. k = 0) [0 ..< height cam * width cam]\<rparr>))\<rparr>"

definition demo_camera :: Camera where
  "demo_camera =
     \<lparr>device = CPU, height = 1, width = 2, view_matrix = concat identity4,
      cam_R = [1, 0, 0, 0, 1, 0, 0, 0, 1]\<rparr>"

text \<open>
  The registry after \<^verbatim>\<open>Primitives.__init__\<close> with no asset folder entries, and the engine
  around it with the settings of \<^verbatim>\<open>Engine3DGRUT.__init__\<close>.
\<close>

definition demo_primitives :: Primitives where
  "demo_primitives = Primitives_init \<lparr>mesh_acc_builds = []\<rparr> Map.empty False False None"

definition demo_engine :: Engine3DGRUT where
  "demo_engine =
     \<lparr>frame_id = 0,
      camera_type = ''Pinhole'',
      camera_fov = 45.0,
      use_depth_of_field = False,
      depth_of_field = \<lparr>spp_accumulated_for_frame = 0, spp_target = 64,
                         aperture_size = 0.01, focus_z = 1.0\<rparr>,
      use_spp = True,
      spp = \<lparr>spp_accumulated_for_frame = 0, spp_target = 4, mode = ''msaa'', batch_size = 4\<rparr>,
      gamma_correction = 1.0,
      max_pbr_bounces = 15,
      use_optix_denoiser = True,
      primitives = demo_primitives,
      last_state = None,
      is_materials_dirty = False,
      envmap = None\<rparr>"

text \<open>
  The registry after \<^verbatim>\<open>add_primitive('Quad', GLASS)\<close> on the fresh one (see \<open>add_quad\<close>),
  the number of accelerator builds so far, and a non-forced rebuild after an operation.
\<close>

definition quad_primitive :: OptixPrimitive where
  "quad_primitive =
     \<lparr>geometry_type = ''Quad'',
      vertices = [(- 1, - 1, 5 / 2), (- 1, 1, 5 / 2), (1, - 1, 5 / 2), (1, 1, 5 / 2)],
      triangles = [(0, 1, 2), (2, 1, 3)],
      vertex_normals = replicate 4 (0, 0, 1),
      has_tangents = replicate 4 True,
      vertex_tangents = replicate 4 (1, 0, 0),
      material_uv = [((0, 0), (0, 1), (1, 0)), ((1, 0), (0, 1), (1, 1))],
      face_material_id = [0, 0],
      primitive_type = GLASS,
      primitive_type_tensor = [2, 2],
      reflectance_scatter = [0, 0],
      refractive_index = 1.33,
      refractive_index_tensor = [1, 1],
      transform = \<lparr>tr_translation = (0, 0, 0), tr_rotation = [],
                    tr_scale = (1 / 4, 1 / 4, 1 / 4)\<rparr>\<rparr>"

definition quad_primitives :: Primitives where
  "quad_primitives =
     demo_primitives\<lparr>instance_counter := [''Quad'' \<mapsto> 1],
                      objects := [(''Quad 1'', quad_primitive)]\<rparr>"

definition rebuild_count :: "Primitives \<Rightarrow> nat" where
  "rebuild_count P = length (mesh_acc_builds (tracer P))"

definition then_rebuild :: "Externals \<Rightarrow> error + Primitives \<Rightarrow> error + Primitives" where
  "then_rebuild ext r =
     (case r of Inl e \<Rightarrow> Inl e | Inr P \<Rightarrow> rebuild_bvh_if_needed ext P False True)"

definition count_of :: "error + Primitives \<Rightarrow> error + nat" where
  "count_of r = map_sum id rebuild_count r"

subsection \<open>The stages of a pass\<close>

text \<open>
  The rays \<^verbatim>\<open>render_pass\<close> generates and the buffers it holds after tracing and
  accumulation, before the noisy copy is kept, the denoiser runs and the mask is applied.
  \<open>zero_where msk b\<close>: the buffer \<open>b\<close> is one frame over the pixels of \<open>msk\<close> and every
  channel of every pixel that \<open>msk\<close> marks is 0.
\<close>

definition pass_camera :: "Camera \<Rightarrow> Camera" where
  "pass_camera camera0 = (if device camera0 = CPU then Camera_cuda camera0 else camera0)"

definition pass_rays ::
    "Externals \<Rightarrow> Engine3DGRUT \<Rightarrow> Camera \<Rightarrow> bool \<Rightarrow> error + RayPack \<times> Engine3DGRUT" where
  "pass_rays ext self camera0 is_first_pass =
     raygen ext self (pass_camera camera0)
       (\<not> is_first_pass \<and> \<not> use_depth_of_field self \<and> use_spp self)"

definition pass_accumulated ::
    "Externals \<Rightarrow> Engine3DGRUT \<Rightarrow> Camera \<Rightarrow> bool
       \<Rightarrow> error + AccumulationBuffers \<times> Engine3DGRUT" where
  "pass_accumulated ext self camera0 is_first_pass =
     (case pass_rays ext self camera0 is_first_pass of
        Inl e \<Rightarrow> Inl e
      | Inr (rays, self1) \<Rightarrow>
          if is_first_pass then render_first_pass ext self1 rays
          else render_accumulating_pass ext self1 (pass_camera camera0) rays)"

definition zero_where :: "bool list \<Rightarrow> batch \<Rightarrow> bool" where
  "zero_where msk b \<longleftrightarrow>
     (\<exists>f. b = [f] \<and> length f = length msk \<and>
          (\<forall>k < length msk. msk ! k \<longrightarrow> (\<forall>c \<in> set (f ! k). c = 0)))"

text \<open>
  A first pass followed by one more pass on the engine it leaves: the buffers of the first
  pass, the termination predicate between the two, and the buffers of the second pass.
\<close>

definition first_then_next_pass ::
    "Externals \<Rightarrow> Engine3DGRUT \<Rightarrow> Camera \<Rightarrow> error + RenderBuffers \<times> bool \<times> RenderBuffers" where
  "first_then_next_pass ext self camera =
     (case render_pass ext self camera True of
        Inl e \<Rightarrow> Inl e
      | Inr (rb1, self1) \<Rightarrow>
          (case render_pass ext self1 camera False of
             Inl e \<Rightarrow> Inl e
           | Inr (rb2, self2) \<Rightarrow>
               Inr (rb1, has_progressive_effects_to_render self1, rb2)))"

definition fisheye_engine :: Engine3DGRUT where
  "fisheye_engine = demo_engine\<lparr>camera_type := ''Fisheye'', use_spp := False\<rparr>"

subsection \<open>The material registry\<close>





subsection \<open>A camera library that needs CUDA cameras\<close>

text \<open>
  The collaborators with the ray generators of the camera library restricted to cameras on
  the CUDA device: given any other camera they produce no rays, so that the reshape to the
  pixel grid raises. The comment in \<^verbatim>\<open>render_pass\<close> says why the camera is moved: rendering
  needs it on the CUDA device.
\<close>

definition cuda_only :: "Externals \<Rightarrow> Externals" where
  "cuda_only ext =
     ext\<lparr>generate_pinhole_rays := (\<lambda>camera grid.
            if device camera = CUDA then generate_pinhole_rays ext camera grid
            else (\<lparr>shape = [0, 3], elems = []\<rparr>, \<lparr>shape = [0, 3], elems = []\<rparr>)),
         generate_fisheye_rays := (\<lambda>camera grid.
            if device camera = CUDA then generate_fisheye_rays ext camera grid
            else (\<lparr>shape = [0, 3], elems = []\<rparr>, \<lparr>shape = [0, 3], elems = []\<rparr>,
                  \<lparr>shape = [0], elems = []\<rparr>))\<rparr>"

subsection \<open>An antialiasing pass under a mask\<close>

text \<open>
  The engine a first pass leaves behind, and the test engine with the fish-eye camera and
  antialiasing on, in batches of four samples.
\<close>

definition after_first_pass :: "Externals \<Rightarrow> Engine3DGRUT \<Rightarrow> Camera \<Rightarrow> Engine3DGRUT" where
  "after_first_pass ext self camera =
     (case render_pass ext self camera True of Inl e \<Rightarrow> self | Inr (rb, self1) \<Rightarrow> self1)"

definition fisheye_spp_engine :: Engine3DGRUT where
  "fisheye_spp_engine = demo_engine\<lparr>camera_type := ''Fisheye''\<rparr>"

subsection \<open>The gamma-correct running mean\<close>

text \<open>
  The spec's accumulation rule on one value: previous value \<open>P\<close>, new contribution \<open>N\<close>
  worth \<open>b\<close> samples, \<open>n\<close> samples so far, gamma \<open>g\<close>. Colours and sample counts are not
  negative, which \<open>batch_nonneg\<close> says of a buffer.
\<close>

definition gamma_mean :: "real \<Rightarrow> real \<Rightarrow> real \<Rightarrow> real \<Rightarrow> real \<Rightarrow> real" where
  "gamma_mean P N n g b = ((P powr g * n + N) / (n + b)) powr (1 / g)"

definition batch_nonneg :: "batch \<Rightarrow> bool" where
  "batch_nonneg b = list_all (list_all (list_all (\<lambda>x. 0 \<le> x))) b"


subsection \<open>Extents\<close>

text \<open>
  Modelled from the spec: the largest bounding-box axis extent of a mesh, the largest over the
  three axes of the greatest minus the least coordinate of its vertices, and the largest axis
  extent of the scene.
\<close>

definition mesh_extent :: "Mesh \<Rightarrow> real" where
  "mesh_extent mesh =
     (let xs = map fst (mesh_vertices mesh);
          ys = map (\<lambda>v. fst (snd v)) (mesh_vertices mesh);
          zs = map (\<lambda>v. snd (snd v)) (mesh_vertices mesh)
      in Max {Max (set xs) - Min (set xs), Max (set ys) - Min (set ys),
              Max (set zs) - Min (set zs)})"

definition scene_extent :: "Primitives \<Rightarrow> real" where
  "scene_extent self = (case scene_scale self of (x, y, z) \<Rightarrow> Max {x, y, z})"

section \<open>Properties: proofs\<close>

subsection \<open>Splitting a ray pack\<close>

lemma split_lengths_sum: "sum_list (split_lengths sz n) = n"
proof (induction sz n rule: split_lengths.induct)
  case (1 sz n)
  show ?case
  proof (cases "sz = 0 \<or> n \<le> sz")
    case True
    then show ?thesis by (subst split_lengths.simps) auto
  next
    case False
    with 1 show ?thesis by (subst split_lengths.simps) auto
  qed
qed

lemma split_lengths_nonempty: "split_lengths sz n \<noteq> []"
  by (subst split_lengths.simps) simp

lemma split_lengths_count:
  "0 < sz \<Longrightarrow> n \<le> length (split_lengths sz n) * sz \<and>
     (n = 0 \<or> (length (split_lengths sz n) - 1) * sz < n)"
proof (induction sz n rule: split_lengths.induct)
  case (1 sz n)
  show ?case
  proof (cases "n \<le> sz")
    case True
    then show ?thesis by (subst split_lengths.simps, subst (2) split_lengths.simps) auto
  next
    case False
    then have ih: "n - sz \<le> length (split_lengths sz (n - sz)) * sz \<and>
       (n - sz = 0 \<or> (length (split_lengths sz (n - sz)) - 1) * sz < n - sz)"
      using 1 by simp
    have ne: "length (split_lengths sz (n - sz)) \<ge> 1"
      using split_lengths_nonempty [of sz "n - sz"] by (cases "split_lengths sz (n - sz)") auto
    have eq: "split_lengths sz n = sz # split_lengths sz (n - sz)"
      using False 1(2) by (subst split_lengths.simps) simp
    from ih False ne show ?thesis unfolding eq
      by (auto simp: algebra_simps diff_mult_distrib)
  qed
qed

lemma narrows_split_lengths_nth:
  "0 < sz \<Longrightarrow> i < length (split_lengths sz n) \<Longrightarrow>
     narrows t s (split_lengths sz n) ! i = narrow t (s + i * sz) (min sz (n - i * sz))"
proof (induction sz n arbitrary: i s rule: split_lengths.induct)
  case (1 sz n)
  show ?case
  proof (cases "n \<le> sz")
    case True
    then have eq: "split_lengths sz n = [n]" by (subst split_lengths.simps) simp
    with 1(3) have "i = 0" by simp
    with True show ?thesis unfolding eq by (simp add: min_def)
  next
    case False
    have eq: "split_lengths sz n = sz # split_lengths sz (n - sz)"
      using False 1(2) by (subst split_lengths.simps) simp
    show ?thesis
    proof (cases i)
      case 0
      with False show ?thesis unfolding eq by (simp add: min_def)
    next
      case (Suc j)
      with 1(3) have j: "j < length (split_lengths sz (n - sz))" unfolding eq by simp
      have "narrows t (s + sz) (split_lengths sz (n - sz)) ! j =
            narrow t (s + sz + j * sz) (min sz (n - sz - j * sz))"
        using 1(1) [OF _ 1(2) j] False 1(2) by simp
      then show ?thesis unfolding eq Suc by (simp add: algebra_simps)
    qed
  qed
qed

lemma length_narrows: "length (narrows t s ls) = length ls"
  by (induction ls arbitrary: s) auto

lemma concat_narrows:
  "concat (map elems (narrows t s ls)) =
     take (sum_list ls * row_len t) (drop (s * row_len t) (elems t))"
proof (induction ls arbitrary: s)
  case Nil
  then show ?case by simp
next
  case (Cons l ls)
  have "take (l * row_len t) (drop (s * row_len t) (elems t)) @
        take (sum_list ls * row_len t) (drop ((s + l) * row_len t) (elems t)) =
        take ((l + sum_list ls) * row_len t) (drop (s * row_len t) (elems t))"
    by (simp add: take_add algebra_simps)
  with Cons show ?case by (simp add: narrow_def)
qed

lemma torch_split_pos:
  assumes "0 < sz" and "shape t \<noteq> []"
  shows "torch_split t sz = Inr (narrows t 0 (split_lengths (nat sz) (num_rays t)))"
  using assms by (cases "shape t") (auto simp: torch_split_def num_rays_def)

lemma RayPack_split_flat:
  assumes sz: "0 < sz" and fl: "flat p"
  shows "RayPack_split p (Some sz) =
     Inr (map (\<lambda>(ray_ori, ray_dir).
                \<lparr>rays_ori = ray_ori, rays_dir = ray_dir, pixel_x = None, pixel_y = None,
                 mask = None\<rparr>)
           (zip (narrows (rays_ori p) 0 (split_lengths (nat sz) (num_rays (rays_ori p))))
                (narrows (rays_dir p) 0 (split_lengths (nat sz) (num_rays (rays_dir p))))))"
proof -
  from fl have s1: "shape (rays_ori p) \<noteq> []" and s2: "shape (rays_dir p) \<noteq> []"
    by (auto simp: flat_def ndim_def)
  show ?thesis
    using fl by (simp add: RayPack_split_def flat_def torch_split_pos [OF sz s1]
        torch_split_pos [OF sz s2])
qed

lemma RayPack_split_not_flat:
  "\<not> flat p \<Longrightarrow> RayPack_split p (Some sz) = Inl AssertionError"
  by (simp add: RayPack_split_def flat_def)

lemma map_ori_pairs:
  "length xs = length ys \<Longrightarrow>
   map (\<lambda>c. f (rays_ori c))
     (map (\<lambda>(a, b). \<lparr>rays_ori = a, rays_dir = b, pixel_x = None, pixel_y = None, mask = None\<rparr>)
        (zip xs ys)) = map f xs"
  by (induction xs ys rule: list_induct2) auto

lemma map_dir_pairs:
  "length xs = length ys \<Longrightarrow>
   map (\<lambda>c. f (rays_dir c))
     (map (\<lambda>(a, b). \<lparr>rays_ori = a, rays_dir = b, pixel_x = None, pixel_y = None, mask = None\<rparr>)
        (zip xs ys)) = map f ys"
  by (induction xs ys rule: list_induct2) auto

text \<open>
  Claim C9, amended. With a positive chunk size, \<^verbatim>\<open>RayPack.split\<close> raises the assertion
  error exactly when the pack is not flat, and raises nothing else. On a flat pack whose
  two arrays hold the same number of rays it returns at least one chunk; the chunks cover
  the ray axis (the count is the least that does), chunk \<open>i\<close> holds the rays from
  \<open>i * size\<close> on, \<open>size\<close> of them or what is left, without pixel coordinates or mask, and
  the chunks' elements concatenated are the pack's. As stated for every chunk size the claim
  fails: size 0 on a flat pack with rays is refused by \<^verbatim>\<open>torch.split\<close>.
\<close>

theorem split_positive_chunk_size:
  assumes sz: "0 < sz"
  shows "(RayPack_split p (Some sz) = Inl AssertionError \<longleftrightarrow> \<not> flat p) \<and>
         ((\<exists>e. RayPack_split p (Some sz) = Inl e) \<longleftrightarrow> \<not> flat p) \<and>
         (flat p \<and> num_rays (rays_ori p) = num_rays (rays_dir p) \<longrightarrow>
            (\<exists>cs. RayPack_split p (Some sz) = Inr cs \<and>
                  1 \<le> length cs \<and>
                  num_rays (rays_ori p) \<le> length cs * nat sz \<and>
                  (num_rays (rays_ori p) = 0 \<or> (length cs - 1) * nat sz < num_rays (rays_ori p)) \<and>
                  (num_rays (rays_ori p) = 0 \<longrightarrow> length cs = 1) \<and>
                  (\<forall>i < length cs. cs ! i = ray_chunk p (nat sz) i) \<and>
                  concat (map (\<lambda>c. elems (rays_ori c)) cs) =
                    take (num_rays (rays_ori p) * row_len (rays_ori p)) (elems (rays_ori p)) \<and>
                  concat (map (\<lambda>c. elems (rays_dir c)) cs) =
                    take (num_rays (rays_dir p) * row_len (rays_dir p)) (elems (rays_dir p))))"
proof -
  have e1: "(RayPack_split p (Some sz) = Inl AssertionError) = (\<not> flat p)"
    using RayPack_split_flat [OF sz, of p] RayPack_split_not_flat [of p sz]
    by (cases "flat p") simp_all
  have e2: "(\<exists>e. RayPack_split p (Some sz) = Inl e) = (\<not> flat p)"
    using RayPack_split_flat [OF sz, of p] RayPack_split_not_flat [of p sz]
    by (cases "flat p") simp_all
  have e3: "\<exists>cs. RayPack_split p (Some sz) = Inr cs \<and>
                  1 \<le> length cs \<and>
                  num_rays (rays_ori p) \<le> length cs * nat sz \<and>
                  (num_rays (rays_ori p) = 0 \<or> (length cs - 1) * nat sz < num_rays (rays_ori p)) \<and>
                  (num_rays (rays_ori p) = 0 \<longrightarrow> length cs = 1) \<and>
                  (\<forall>i < length cs. cs ! i = ray_chunk p (nat sz) i) \<and>
                  concat (map (\<lambda>c. elems (rays_ori c)) cs) =
                    take (num_rays (rays_ori p) * row_len (rays_ori p)) (elems (rays_ori p)) \<and>
                  concat (map (\<lambda>c. elems (rays_dir c)) cs) =
                    take (num_rays (rays_dir p) * row_len (rays_dir p)) (elems (rays_dir p))"
    if fl: "flat p" and same: "num_rays (rays_ori p) = num_rays (rays_dir p)"
  proof -
    define n where "n = num_rays (rays_ori p)"
    define k where "k = nat sz"
    define ls where "ls = split_lengths k n"
    define os where "os = narrows (rays_ori p) 0 ls"
    define ds where "ds = narrows (rays_dir p) 0 ls"
    define cs where "cs = map (\<lambda>(ray_ori, ray_dir).
                  \<lparr>rays_ori = ray_ori, rays_dir = ray_dir, pixel_x = None, pixel_y = None,
                   mask = None\<rparr>) (zip os ds)"
    have k: "0 < k" using sz by (simp add: k_def)
    have n2: "num_rays (rays_dir p) = n" using same by (simp add: n_def)
    have lod: "length os = length ds" by (simp add: os_def ds_def length_narrows)
    have res: "RayPack_split p (Some sz) = Inr cs"
      using RayPack_split_flat [OF sz fl] same
      by (simp add: cs_def os_def ds_def ls_def k_def n_def)
    have len: "length cs = length ls"
      by (simp add: cs_def os_def ds_def length_narrows)
    have cnt: "n \<le> length ls * k \<and> (n = 0 \<or> (length ls - 1) * k < n)"
      unfolding ls_def using split_lengths_count [OF k] by blast
    have emp: "n = 0 \<longrightarrow> length ls = 1"
      unfolding ls_def by (subst split_lengths.simps) simp
    have ne: "1 \<le> length ls"
      using split_lengths_nonempty [of k n] by (cases ls) (auto simp: ls_def)
    have nth: "cs ! i = ray_chunk p k i" if "i < length cs" for i
    proof -
      from that have i: "i < length ls" using len by simp
      have o: "os ! i = narrow (rays_ori p) (i * k) (min k (n - i * k))"
        using narrows_split_lengths_nth [OF k, of i n "rays_ori p" 0] i
        by (simp add: os_def ls_def)
      have d: "ds ! i = narrow (rays_dir p) (i * k) (min k (n - i * k))"
        using narrows_split_lengths_nth [OF k, of i n "rays_dir p" 0] i
        by (simp add: ds_def ls_def)
      have io: "i < length os" "i < length ds" using i by (simp_all add: os_def ds_def length_narrows)
      show ?thesis
        unfolding cs_def using io by (simp add: o d ray_chunk_def n2 n_def [symmetric])
    qed
    have mo: "map (\<lambda>c. elems (rays_ori c)) cs = map elems os"
      unfolding cs_def by (rule map_ori_pairs [OF lod])
    have md: "map (\<lambda>c. elems (rays_dir c)) cs = map elems ds"
      unfolding cs_def by (rule map_dir_pairs [OF lod])
    have co: "concat (map (\<lambda>c. elems (rays_ori c)) cs) =
                take (n * row_len (rays_ori p)) (elems (rays_ori p))"
      unfolding mo os_def
      using concat_narrows [of "rays_ori p" 0 ls]
      by (simp add: ls_def split_lengths_sum)
    have cd: "concat (map (\<lambda>c. elems (rays_dir c)) cs) =
                take (n * row_len (rays_dir p)) (elems (rays_dir p))"
      unfolding md ds_def
      using concat_narrows [of "rays_dir p" 0 ls]
      by (simp add: ls_def split_lengths_sum)
    have "RayPack_split p (Some sz) = Inr cs \<and>
                  1 \<le> length cs \<and>
                  n \<le> length cs * k \<and>
                  (n = 0 \<or> (length cs - 1) * k < n) \<and>
                  (n = 0 \<longrightarrow> length cs = 1) \<and>
                  (\<forall>i < length cs. cs ! i = ray_chunk p k i) \<and>
                  concat (map (\<lambda>c. elems (rays_ori c)) cs) =
                    take (n * row_len (rays_ori p)) (elems (rays_ori p)) \<and>
                  concat (map (\<lambda>c. elems (rays_dir c)) cs) =
                    take (n * row_len (rays_dir p)) (elems (rays_dir p))"
      using res ne cnt emp nth co cd unfolding len by blast
    then show ?thesis unfolding n2 unfolding n_def k_def by (rule exI)
  qed
  from e1 e2 e3 show ?thesis by blast
qed

theorem split_zero_chunk_size_counterexample:
  "flat demo_pack \<and> RayPack_split demo_pack (Some 0) = Inl RuntimeError"
  by (simp add: flat_def demo_pack_def ndim_def RayPack_split_def torch_split_def)

theorem split_positive_chunk_size_witness:
  "(0::int) < 2 \<and> flat demo_pack \<and>
   num_rays (rays_ori demo_pack) = num_rays (rays_dir demo_pack) \<and>
   RayPack_split demo_pack (Some 2) \<noteq> Inl AssertionError \<and>
   (\<exists>cs. RayPack_split demo_pack (Some 2) = Inr cs \<and> length cs = 2 \<and>
      cs ! 0 = ray_chunk demo_pack 2 0 \<and> cs ! 1 = ray_chunk demo_pack 2 1)"
proof -
  have fl: "flat demo_pack" by (simp add: flat_def demo_pack_def ndim_def)
  have same: "num_rays (rays_ori demo_pack) = num_rays (rays_dir demo_pack)"
    by (simp add: num_rays_def demo_pack_def)
  have n: "num_rays (rays_ori demo_pack) = 3" by (simp add: num_rays_def demo_pack_def)
  from split_positive_chunk_size [of 2 demo_pack] fl same
  obtain cs where cs: "RayPack_split demo_pack (Some 2) = Inr cs"
      "1 \<le> length cs" "num_rays (rays_ori demo_pack) \<le> length cs * nat 2"
      "num_rays (rays_ori demo_pack) = 0 \<or> (length cs - 1) * nat 2 < num_rays (rays_ori demo_pack)"
      "\<forall>i < length cs. cs ! i = ray_chunk demo_pack (nat 2) i"
    by auto
  from cs(2,3,4) have l: "length cs = 2" unfolding n by simp
  from cs(1,5) l fl same show ?thesis by auto
qed

subsection \<open>Termination predicate\<close>

text \<open>
  Claim C4, amended. \<^verbatim>\<open>has_progressive_effects_to_render()\<close> is true exactly when
  depth-of-field is enabled and its accumulated count is at most its target, or
  depth-of-field is disabled, antialiasing is enabled and its accumulated count is at most
  its target. It reads the depth-of-field counter when depth-of-field is enabled, the
  antialiasing counter when only antialiasing is enabled and no counter when both are
  disabled: at most one per call, not exactly one.
\<close>

theorem progressive_effects_predicate:
  "(has_progressive_effects_to_render self \<longleftrightarrow>
      (use_depth_of_field self \<and>
         spp_accumulated_for_frame (depth_of_field self) \<le> spp_target (depth_of_field self)) \<or>
      (\<not> use_depth_of_field self \<and> use_spp self \<and>
         spp_accumulated_for_frame (spp self) \<le> spp_target (spp self))) \<and>
   fst (has_progressive_effects_to_render_reads self) = has_progressive_effects_to_render self \<and>
   snd (has_progressive_effects_to_render_reads self) =
     (if use_depth_of_field self then [DoF_counter]
      else if use_spp self then [SPP_counter] else []) \<and>
   length (snd (has_progressive_effects_to_render_reads self)) \<le> 1"
  by (simp add: has_progressive_effects_to_render_def
      has_progressive_effects_to_render_reads_def Let_def)

theorem progressive_effects_predicate_witness:
  "has_progressive_effects_to_render demo_engine \<and>
   has_progressive_effects_to_render_reads demo_engine = (True, [SPP_counter])"
  using progressive_effects_predicate [of demo_engine]
  by (simp add: demo_engine_def prod_eq_iff)

theorem no_counter_read_counterexample:
  "has_progressive_effects_to_render_reads (demo_engine\<lparr>use_spp := False\<rparr>) = (False, [])"
  by (simp add: has_progressive_effects_to_render_reads_def demo_engine_def)

subsection \<open>Camera placement\<close>

lemma cuda_only_fields:
  "load_mesh (cuda_only ext) = load_mesh ext"
  "model_matrix (cuda_only ext) = model_matrix ext"
  "rotation_matrix (cuda_only ext) = rotation_matrix ext"
  "render_playground (cuda_only ext) = render_playground ext"
  "denoise (cuda_only ext) = denoise ext"
  "mog_trace (cuda_only ext) = mog_trace ext"
  "mog_background_color (cuda_only ext) = mog_background_color ext"
  "mog_background (cuda_only ext) = mog_background ext"
  "spp_call (cuda_only ext) = spp_call ext"
  "spp_has_more_to_accumulate (cuda_only ext) = spp_has_more_to_accumulate ext"
  "spp_reset_accumulation (cuda_only ext) = spp_reset_accumulation ext"
  "dof_call (cuda_only ext) = dof_call ext"
  "dof_has_more_to_accumulate (cuda_only ext) = dof_has_more_to_accumulate ext"
  "dof_reset_accumulation (cuda_only ext) = dof_reset_accumulation ext"
  "generate_centered_pixel_coords (cuda_only ext) = generate_centered_pixel_coords ext"
  by (simp_all add: cuda_only_def)

lemma cuda_only_generators:
  assumes "device camera = CUDA"
  shows "generate_pinhole_rays (cuda_only ext) camera = generate_pinhole_rays ext camera"
    and "generate_fisheye_rays (cuda_only ext) camera = generate_fisheye_rays ext camera"
  using assms by (simp_all add: cuda_only_def)

lemma cuda_only_apply_transform: "apply_transform (cuda_only ext) = apply_transform ext"
  unfolding apply_transform_def cuda_only_fields by (rule refl)

lemma cuda_only_recompute:
  "recompute_stacked_buffers (cuda_only ext) = recompute_stacked_buffers ext"
  unfolding recompute_stacked_buffers_def cuda_only_apply_transform by (rule refl)

lemma cuda_only_rebuild:
  "rebuild_bvh_if_needed (cuda_only ext) = rebuild_bvh_if_needed ext"
  unfolding rebuild_bvh_if_needed_def cuda_only_recompute by (rule refl)

lemma cuda_only_hybrid:
  "render_playground_hybrid (cuda_only ext) = render_playground_hybrid ext"
  unfolding render_playground_hybrid_def cuda_only_rebuild cuda_only_fields by (rule refl)

lemma cuda_only_trace: "trace_rays (cuda_only ext) = trace_rays ext"
  unfolding trace_rays_def cuda_only_hybrid cuda_only_fields by (rule refl)

lemma cuda_only_first: "render_first_pass (cuda_only ext) = render_first_pass ext"
  unfolding render_first_pass_def cuda_only_trace cuda_only_fields by (rule refl)

lemma cuda_only_dof:
  "render_depth_of_field_buffer (cuda_only ext) = render_depth_of_field_buffer ext"
  unfolding render_depth_of_field_buffer_def cuda_only_trace cuda_only_fields by (rule refl)

lemma cuda_only_spp: "render_spp_buffer (cuda_only ext) = render_spp_buffer ext"
  unfolding render_spp_buffer_def cuda_only_trace cuda_only_fields by (rule refl)

lemma cuda_only_accumulating:
  "render_accumulating_pass (cuda_only ext) = render_accumulating_pass ext"
  unfolding render_accumulating_pass_def cuda_only_dof cuda_only_spp by (rule refl)

lemma cuda_only_finish: "finish_pass (cuda_only ext) = finish_pass ext"
  unfolding finish_pass_def cuda_only_fields by (rule refl)

lemma cuda_only_pinhole:
  "device camera = CUDA \<Longrightarrow> raygen_pinhole (cuda_only ext) camera j = raygen_pinhole ext camera j"
  unfolding raygen_pinhole_def cuda_only_fields by (simp only: cuda_only_generators)

lemma cuda_only_fisheye:
  "device camera = CUDA \<Longrightarrow> raygen_fisheye (cuda_only ext) camera j = raygen_fisheye ext camera j"
  unfolding raygen_fisheye_def cuda_only_fields by (simp only: cuda_only_generators)

lemma cuda_only_loop:
  "device camera = CUDA \<Longrightarrow>
     raygen_loop (cuda_only ext) ct camera b n sp = raygen_loop ext ct camera b n sp"
proof (induction n arbitrary: sp)
  case 0
  show ?case by simp
next
  case (Suc n)
  have ih: "raygen_loop (cuda_only ext) ct camera b n = raygen_loop ext ct camera b n"
    using Suc by (intro ext) simp
  show ?case
    unfolding raygen_loop.simps ih cuda_only_fields
      cuda_only_pinhole [OF Suc.prems] cuda_only_fisheye [OF Suc.prems] by (rule refl)
qed

lemma cuda_only_raygen:
  "device camera = CUDA \<Longrightarrow> raygen (cuda_only ext) self camera b = raygen ext self camera b"
  unfolding raygen_def by (simp only: cuda_only_loop)

lemma cuda_only_render_pass:
  assumes "device camera = CUDA"
  shows "render_pass (cuda_only ext) self camera is_first_pass =
           render_pass ext self camera is_first_pass"
proof -
  have c: "(if device camera = CPU then Camera_cuda camera else camera) = camera"
    using assms by simp
  show ?thesis
    unfolding render_pass_def c Let_def cuda_only_first cuda_only_accumulating cuda_only_finish
      cuda_only_raygen [OF assms] by (rule refl)
qed

text \<open>
  Claim C10. A camera on the CPU is moved to the CUDA device before anything else: the pass
  with it is the pass with the moved camera (the same buffers, the same engine afterwards,
  the same exception if any), and this also when the camera library accepts CUDA cameras
  only, so no step of the pass hands the CPU camera to the library. The move changes the
  device and nothing else of the camera.
\<close>

theorem render_pass_cpu_camera:
  "device camera = CPU \<Longrightarrow>
     render_pass ext self camera is_first_pass =
       render_pass ext self (Camera_cuda camera) is_first_pass \<and>
     render_pass (cuda_only ext) self camera is_first_pass =
       render_pass ext self (Camera_cuda camera) is_first_pass \<and>
     device (Camera_cuda camera) = CUDA \<and>
     height (Camera_cuda camera) = height camera \<and>
     width (Camera_cuda camera) = width camera \<and>
     view_matrix (Camera_cuda camera) = view_matrix camera \<and>
     cam_R (Camera_cuda camera) = cam_R camera"
proof -
  assume cpu: "device camera = CPU"
  have d: "device (Camera_cuda camera) = CUDA" by (simp add: Camera_cuda_def)
  have a: "render_pass e self camera is_first_pass =
       render_pass e self (Camera_cuda camera) is_first_pass" for e
    using cpu by (simp add: render_pass_def Camera_cuda_def)
  have b: "render_pass (cuda_only ext) self (Camera_cuda camera) is_first_pass =
       render_pass ext self (Camera_cuda camera) is_first_pass"
    by (rule cuda_only_render_pass [OF d])
  show ?thesis using a [of ext] a [of "cuda_only ext"] b d by (simp add: Camera_cuda_def)
qed

subsection \<open>Frame counter\<close>

lemma advance_frame_id_example: "advance_frame_id (2 ^ 31 - 2) 4 = 2 ^ 31 + 2"
  by (simp add: advance_frame_id_def)

lemma hybrid_frame_id:
  "render_playground_hybrid ext self ro rd = Inr (res, self') \<Longrightarrow>
     frame_id self' = advance_frame_id (frame_id self) (batch_size (spp self))"
  by (auto simp: render_playground_hybrid_def Let_def split: sum.splits option.splits prod.splits if_splits)

subsection \<open>The test scene\<close>

lemma str_int_1: "str_int 1 = ''1''"
  by (simp add: str_int_def str_nat.simps digit_char_def)

lemma add_quad:
  "add_primitive demo_ext demo_primitives ''Quad'' GLASS = Inr quad_primitives"
  by (simp add: add_primitive_def create_geometry_def quad_mesh_def demo_ext_def
      set_mesh_scale_to_scene_def vec_max_def vec_sub_def vec_scale_def
      ObjectTransform_scale_def identity_transform_def SCALE_OF_NEW_MESH_TO_SMALL_SCENE_def
      Let_def str_int_1 demo_primitives_def Primitives_init_def quad_primitives_def
      quad_primitive_def DEFAULT_REFRACTIVE_INDEX_def numeral_eq_Suc)

subsection \<open>Rebuilding the mesh accelerator\<close>

lemma recompute_stacked_buffers_result:
  "\<exists>sf. recompute_stacked_buffers ext P = Inr (P\<lparr>stacked_fields := sf\<rparr>) \<and>
        (has_visible_objects P \<longrightarrow> sf \<noteq> None)"
proof (cases "has_visible_objects P")
  case False
  then show ?thesis
    by (intro exI [of _ None]) (simp add: recompute_stacked_buffers_def has_visible_objects_def Let_def)
next
  case True
  define h where "h = (\<lambda>obj. obj\<lparr>primitive_type_tensor :=
                            replicate (length (triangles obj)) (primitive_type_value (primitive_type obj)),
                          refractive_index_tensor :=
                            replicate (length (triangles obj)) (refractive_index obj)\<rparr>)
                      \<circ> apply_transform ext"
  have pt: "primitive_type (h p) = primitive_type p" for p
    by (simp add: h_def apply_transform_def Let_def)
  have ne: "filter (\<lambda>p. primitive_type p \<noteq> NONE) (map h (map snd (objects P))) \<noteq> []"
  proof -
    from True obtain p where p: "p \<in> set (map snd (objects P))" "primitive_type p \<noteq> NONE"
      unfolding has_visible_objects_def length_greater_0_conv filter_empty_conv by blast
    then have "h p \<in> set (map h (map snd (objects P)))" "primitive_type (h p) \<noteq> NONE"
      using pt by auto
    then show ?thesis unfolding filter_empty_conv by blast
  qed
  then obtain sf where sf: "OptixPrimitive_stack
      (filter (\<lambda>p. primitive_type p \<noteq> NONE) (map h (map snd (objects P)))) = Inr sf"
    by (simp add: OptixPrimitive_stack_def)
  have "recompute_stacked_buffers ext P = Inr (P\<lparr>stacked_fields := Some sf\<rparr>)"
    using True sf
    by (simp add: recompute_stacked_buffers_def has_visible_objects_def Let_def h_def o_def)
  then show ?thesis by (intro exI [of _ "Some sf"]) simp
qed

lemma rebuild_bvh_if_needed_clean:
  "\<not> dirty P \<Longrightarrow> rebuild_bvh_if_needed ext P False rb = Inr P"
proof -
  assume "\<not> dirty P"
  then have "P\<lparr>dirty := False\<rparr> = P" by simp
  with \<open>\<not> dirty P\<close> show ?thesis by (simp add: rebuild_bvh_if_needed_def)
qed

lemma rebuild_bvh_if_needed_build:
  assumes "dirty P \<or> force"
  shows "\<exists>sf call. rebuild_bvh_if_needed ext P force rb =
            Inr (P\<lparr>stacked_fields := sf,
                   tracer := (tracer P)\<lparr>mesh_acc_builds := mesh_acc_builds (tracer P) @ [call]\<rparr>,
                   dirty := False\<rparr>) \<and>
          (if has_visible_objects P then sf \<noteq> None else sf = stacked_fields P)"
proof (cases "has_visible_objects P")
  case False
  with assms show ?thesis
    by (intro exI [of _ "stacked_fields P"] exI [of _ "\<lparr>arg_mesh_vertices = replicate 3 (0, 0, 0),
          arg_mesh_faces = [(0, 0, 0)], arg_rebuild = True, arg_allow_update = True\<rparr>"])
       (auto simp add: rebuild_bvh_if_needed_def build_mesh_acc_def)
next
  case True
  from recompute_stacked_buffers_result [of ext P] True
  obtain sf where sf: "recompute_stacked_buffers ext P = Inr (P\<lparr>stacked_fields := Some sf\<rparr>)"
    by auto
  from assms True sf show ?thesis
    by (intro exI [of _ "Some sf"] exI [of _ "\<lparr>arg_mesh_vertices = sf_vertices sf,
          arg_mesh_faces = sf_triangles sf, arg_rebuild = rb, arg_allow_update = True\<rparr>"])
       (auto simp add: rebuild_bvh_if_needed_def build_mesh_acc_def)
qed

lemma rebuild_bvh_if_needed_forced:
  assumes "dirty P \<or> force"
  shows "\<exists>P'. rebuild_bvh_if_needed ext P force rb = Inr P' \<and> \<not> dirty P' \<and>
           rebuild_count P' = rebuild_count P + 1 \<and> objects P' = objects P \<and>
           instance_counter P' = instance_counter P \<and>
           (has_visible_objects P \<longrightarrow> stacked_fields P' \<noteq> None)"
  using rebuild_bvh_if_needed_build [OF assms, of ext rb]
  by (auto simp: rebuild_count_def split: if_splits)

lemma remove_primitive_forced:
  assumes "map_of (objects P) name \<noteq> None"
  shows "\<exists>P'. remove_primitive ext P name = Inr P' \<and> \<not> dirty P' \<and>
           rebuild_count P' = rebuild_count P + 1 \<and>
           objects P' = dict_del (objects P) name"
proof -
  from rebuild_bvh_if_needed_forced [of "P\<lparr>objects := dict_del (objects P) name\<rparr>" True ext True]
  obtain P' where "rebuild_bvh_if_needed ext (P\<lparr>objects := dict_del (objects P) name\<rparr>) True True
                     = Inr P'" "\<not> dirty P'"
      "rebuild_count P' = rebuild_count (P\<lparr>objects := dict_del (objects P) name\<rparr>) + 1"
      "objects P' = objects (P\<lparr>objects := dict_del (objects P) name\<rparr>)"
    by auto
  with assms show ?thesis
    by (intro exI [of _ P']) (auto simp: remove_primitive_def rebuild_count_def)
qed

lemma duplicate_primitive_forced:
  assumes "map_of (objects P) name = Some prim"
    and "instance_counter P (geometry_type prim) = Some c"
  shows "\<exists>P'. duplicate_primitive ext P name = Inr P' \<and> \<not> dirty P' \<and>
           rebuild_count P' = rebuild_count P + 1 \<and>
           objects P' = dict_set (objects P) (geometry_type prim @ '' '' @ str_int (c + 1)) prim \<and>
           instance_counter P' = (instance_counter P)(geometry_type prim \<mapsto> c + 1)"
proof -
  define Q where "Q = P\<lparr>instance_counter := (instance_counter P)(geometry_type prim \<mapsto> c + 1),
      objects := dict_set (objects P) (geometry_type prim @ '' '' @ str_int (c + 1)) prim\<rparr>"
  from rebuild_bvh_if_needed_forced [of Q True ext True]
  obtain P' where "rebuild_bvh_if_needed ext Q True True = Inr P'" "\<not> dirty P'"
      "rebuild_count P' = rebuild_count Q + 1" "objects P' = objects Q"
      "instance_counter P' = instance_counter Q"
    by auto
  with assms show ?thesis
    by (intro exI [of _ P']) (auto simp: duplicate_primitive_def rebuild_count_def Q_def Let_def)
qed

text \<open>
  Claim C2, amended. \<^verbatim>\<open>remove_primitive\<close> and \<^verbatim>\<open>duplicate_primitive\<close> do not mark the
  registry dirty: each runs the forced rebuild itself, one accelerator build, and leaves the
  registry clean, so the next \<^verbatim>\<open>rebuild_bvh_if_needed(force=False)\<close> builds nothing and
  changes nothing. A non-forced call builds exactly when the dirty flag is set and always
  clears it, so a second consecutive non-forced call builds nothing.
\<close>

theorem forced_rebuild_leaves_registry_clean:
  "(map_of (objects P) name \<noteq> None \<longrightarrow>
      (\<exists>P1. remove_primitive ext P name = Inr P1 \<and> \<not> dirty P1 \<and>
            rebuild_count P1 = rebuild_count P + 1 \<and>
            rebuild_bvh_if_needed ext P1 False rb = Inr P1)) \<and>
   (map_of (objects P) name = Some prim \<and> instance_counter P (geometry_type prim) \<noteq> None \<longrightarrow>
      (\<exists>P2. duplicate_primitive ext P name = Inr P2 \<and> \<not> dirty P2 \<and>
            rebuild_count P2 = rebuild_count P + 1 \<and>
            rebuild_bvh_if_needed ext P2 False rb = Inr P2)) \<and>
   (\<exists>P3. rebuild_bvh_if_needed ext P False rb = Inr P3 \<and> \<not> dirty P3 \<and>
         rebuild_count P3 = rebuild_count P + (if dirty P then 1 else 0) \<and>
         rebuild_bvh_if_needed ext P3 False rb = Inr P3)"
proof (intro conjI impI)
  assume "map_of (objects P) name \<noteq> None"
  from remove_primitive_forced [OF this, of ext]
  show "\<exists>P1. remove_primitive ext P name = Inr P1 \<and> \<not> dirty P1 \<and>
            rebuild_count P1 = rebuild_count P + 1 \<and>
            rebuild_bvh_if_needed ext P1 False rb = Inr P1"
    using rebuild_bvh_if_needed_clean by blast
next
  assume "map_of (objects P) name = Some prim \<and> instance_counter P (geometry_type prim) \<noteq> None"
  then obtain c where "map_of (objects P) name = Some prim"
      "instance_counter P (geometry_type prim) = Some c" by auto
  from duplicate_primitive_forced [OF this, of ext]
  show "\<exists>P2. duplicate_primitive ext P name = Inr P2 \<and> \<not> dirty P2 \<and>
            rebuild_count P2 = rebuild_count P + 1 \<and>
            rebuild_bvh_if_needed ext P2 False rb = Inr P2"
    using rebuild_bvh_if_needed_clean by blast
next
  show "\<exists>P3. rebuild_bvh_if_needed ext P False rb = Inr P3 \<and> \<not> dirty P3 \<and>
         rebuild_count P3 = rebuild_count P + (if dirty P then 1 else 0) \<and>
         rebuild_bvh_if_needed ext P3 False rb = Inr P3"
  proof (cases "dirty P")
    case True
    then have "dirty P \<or> False" by simp
    from rebuild_bvh_if_needed_forced [OF this, of ext rb] True
    show ?thesis using rebuild_bvh_if_needed_clean by auto
  next
    case False
    then show ?thesis using rebuild_bvh_if_needed_clean [of P ext] by auto
  qed
qed

lemma quad_lookup: "map_of (objects quad_primitives) ''Quad 1'' = Some quad_primitive"
  by (simp add: quad_primitives_def)

lemma quad_counter: "instance_counter quad_primitives (geometry_type quad_primitive) = Some 1"
  by (simp add: quad_primitives_def quad_primitive_def)

lemma quad_count: "rebuild_count quad_primitives = 0" "dirty quad_primitives"
  by (simp_all add: quad_primitives_def rebuild_count_def demo_primitives_def Primitives_init_def)

theorem forced_rebuild_leaves_registry_clean_witness:
  "map_of (objects quad_primitives) ''Quad 1'' = Some quad_primitive \<and>
   instance_counter quad_primitives (geometry_type quad_primitive) \<noteq> None \<and>
   (\<exists>P1. remove_primitive demo_ext quad_primitives ''Quad 1'' = Inr P1 \<and> \<not> dirty P1 \<and>
         rebuild_count P1 = 1 \<and> rebuild_bvh_if_needed demo_ext P1 False True = Inr P1) \<and>
   (\<exists>P2. duplicate_primitive demo_ext quad_primitives ''Quad 1'' = Inr P2 \<and> \<not> dirty P2 \<and>
         rebuild_count P2 = 1 \<and> rebuild_bvh_if_needed demo_ext P2 False True = Inr P2) \<and>
   (\<exists>P3. rebuild_bvh_if_needed demo_ext quad_primitives False True = Inr P3 \<and> \<not> dirty P3 \<and>
         rebuild_count P3 = 1 \<and> rebuild_bvh_if_needed demo_ext P3 False True = Inr P3)"
  using forced_rebuild_leaves_registry_clean
    [of quad_primitives "''Quad 1''" demo_ext True quad_primitive]
  by (simp add: quad_lookup quad_counter quad_count)

theorem no_rebuild_after_removal_counterexample:
  "count_of (remove_primitive demo_ext quad_primitives ''Quad 1'') = Inr 1 \<and>
   count_of (then_rebuild demo_ext (remove_primitive demo_ext quad_primitives ''Quad 1'')) = Inr 1 \<and>
   count_of (duplicate_primitive demo_ext quad_primitives ''Quad 1'') = Inr 1 \<and>
   count_of (then_rebuild demo_ext (duplicate_primitive demo_ext quad_primitives ''Quad 1''))
     = Inr 1"
proof -
  from remove_primitive_forced [of quad_primitives "''Quad 1''" demo_ext]
  obtain P1 where P1: "remove_primitive demo_ext quad_primitives ''Quad 1'' = Inr P1"
      "\<not> dirty P1" "rebuild_count P1 = 1"
    by (auto simp: quad_lookup quad_count)
  from duplicate_primitive_forced [OF quad_lookup quad_counter, of demo_ext]
  obtain P2 where P2: "duplicate_primitive demo_ext quad_primitives ''Quad 1'' = Inr P2"
      "\<not> dirty P2" "rebuild_count P2 = 1"
    by (auto simp: quad_count)
  show ?thesis
    by (simp add: P1 P2 count_of_def then_rebuild_def rebuild_bvh_if_needed_clean)
qed

lemma create_geometry_keeps:
  "create_geometry ext P g = Inr (m, P') \<Longrightarrow>
     dirty P' = dirty P \<and> tracer P' = tracer P \<and> scene_scale P' = scene_scale P"
  by (auto simp: create_geometry_def Let_def split: if_splits option.splits sum.splits prod.splits)

lemma add_primitive_keeps_dirty:
  "add_primitive ext P g t = Inr P' \<Longrightarrow> dirty P' = dirty P \<and> tracer P' = tracer P"
  by (auto simp: add_primitive_def Let_def dest!: create_geometry_keeps
      split: option.splits sum.splits prod.splits)

lemma hybrid_succeeds:
  assumes "has_visible_objects (primitives self)" and "dirty (primitives self)"
  shows "\<exists>res self'. render_playground_hybrid ext self ro rd = Inr (res, self')"
proof -
  from assms(2) have "dirty (primitives self) \<or> False" by simp
  from rebuild_bvh_if_needed_forced [OF this, of ext True] assms(1)
  obtain P' sf where "rebuild_bvh_if_needed ext (primitives self) False True = Inr P'"
      "stacked_fields P' = Some sf"
    by auto
  then show ?thesis
    by (simp add: render_playground_hybrid_def Let_def split: prod.splits)
qed

lemma quad_visible: "has_visible_objects quad_primitives"
  by (simp add: has_visible_objects_def quad_primitives_def quad_primitive_def)

text \<open>
  Claim C1, at its failing input: with the frame counter at \<open>2^31 - 2\<close> and a batch size of
  4, one hybrid trace leaves the counter at \<open>2^31 + 2\<close>, not at 0. The guard compares the
  counter before the batch size is added, so the counter passes the signed 32-bit range by
  up to the batch size before it is reset on the following call.
\<close>

theorem frame_id_exceeds_int32:
  "map_sum id (\<lambda>r. frame_id (snd r))
     (render_playground_hybrid demo_ext
        (demo_engine\<lparr>primitives := quad_primitives, frame_id := 2 ^ 31 - 2\<rparr>)
        (rays_ori demo_pack) (rays_dir demo_pack)) = Inr (2 ^ 31 + 2) \<and>
   batch_size (spp demo_engine) = 4"
proof -
  define E where "E = demo_engine\<lparr>primitives := quad_primitives, frame_id := 2 ^ 31 - 2\<rparr>"
  have v: "has_visible_objects (primitives E)" "dirty (primitives E)"
    by (simp_all add: E_def quad_visible quad_count)
  from hybrid_succeeds [OF v, of demo_ext "rays_ori demo_pack" "rays_dir demo_pack"]
  obtain res E' where r: "render_playground_hybrid demo_ext E (rays_ori demo_pack)
      (rays_dir demo_pack) = Inr (res, E')" by blast
  have b: "batch_size (spp E) = 4" "frame_id E = 2 ^ 31 - 2"
    by (simp_all add: E_def demo_engine_def)
  from hybrid_frame_id [OF r] have "frame_id E' = 2 ^ 31 + 2"
    by (simp add: b advance_frame_id_def)
  with r show ?thesis unfolding E_def [symmetric] by (simp add: demo_engine_def)
qed

subsection \<open>Masking\<close>

lemma masked_zero_zero_where:
  assumes "masked_zero msk t = Inr t'"
  shows "zero_where msk t'"
proof -
  from assms obtain f where f: "t = [f]" "length f = length msk"
      "t' = [map2 (\<lambda>b p. if b then map (\<lambda>_. 0) p else p) msk f]"
    by (auto simp: masked_zero_def split: list.splits if_splits)
  show ?thesis
    unfolding zero_where_def f(3) using f(2) by (intro exI [of _ "map2 (\<lambda>b p. if b then map (\<lambda>_. 0) p else p) msk f"]) auto
qed

lemma finish_pass_masked:
  assumes "finish_pass ext self rays acc = Inr rb" and "mask rays = Some m"
  shows "\<exists>msk. mask_plane m = Inr msk \<and>
           masked_zero msk (if use_optix_denoiser self then denoise ext (rgb acc) else rgb acc)
             = Inr (rgb rb) \<and>
           masked_zero msk (rgb acc) = Inr (rgb_buffer rb) \<and>
           masked_zero msk (opacity acc) = Inr (opacity rb)"
  using assms by (auto simp: finish_pass_def Let_def split: sum.splits)

lemma render_pass_stages:
  assumes "render_pass ext self camera is_first_pass = Inr (rb, self')"
  shows "\<exists>rays self1 acc self2.
           pass_rays ext self camera is_first_pass = Inr (rays, self1) \<and>
           pass_accumulated ext self camera is_first_pass = Inr (acc, self2) \<and>
           finish_pass ext self2 rays acc = Inr rb \<and>
           self' = cache_last_state self2 (pass_camera camera) rb
                     (height (pass_camera camera), width (pass_camera camera))"
  using assms
  by (auto simp: render_pass_def pass_rays_def pass_accumulated_def pass_camera_def Let_def
      split: sum.splits prod.splits if_splits)

text \<open>
  What the masking gives when \<^verbatim>\<open>render_pass\<close> returns: if the rays it generated carry a
  mask, every pixel the mask marks is zero in all channels of the returned colour buffer, of
  the noisy \<^verbatim>\<open>rgb_buffer\<close> and of the opacity buffer, the cache holds these same buffers,
  and the mask is applied last, to the accumulated (and denoised) buffers.
\<close>

theorem masked_pixels_are_zero:
  assumes "render_pass ext self camera is_first_pass = Inr (rb, self')"
  shows "\<exists>rays self1 acc self2.
           pass_rays ext self camera is_first_pass = Inr (rays, self1) \<and>
           pass_accumulated ext self camera is_first_pass = Inr (acc, self2) \<and>
           (case mask rays of
              None \<Rightarrow> True
            | Some m \<Rightarrow>
                (\<exists>msk. mask_plane m = Inr msk \<and>
                   zero_where msk (rgb rb) \<and> zero_where msk (rgb_buffer rb) \<and>
                   zero_where msk (opacity rb) \<and>
                   masked_zero msk (if use_optix_denoiser self2 then denoise ext (rgb acc)
                                    else rgb acc) = Inr (rgb rb) \<and>
                   masked_zero msk (rgb acc) = Inr (rgb_buffer rb) \<and>
                   masked_zero msk (opacity acc) = Inr (opacity rb) \<and>
                   map_option ls_rgb (last_state self') = Some (rgb rb) \<and>
                   map_option ls_rgb_buffer (last_state self') = Some (rgb_buffer rb) \<and>
                   map_option ls_opacity (last_state self') = Some (opacity rb)))"
proof -
  from render_pass_stages [OF assms] obtain rays self1 acc self2 where
    s: "pass_rays ext self camera is_first_pass = Inr (rays, self1)"
       "pass_accumulated ext self camera is_first_pass = Inr (acc, self2)"
       "finish_pass ext self2 rays acc = Inr rb"
       "self' = cache_last_state self2 (pass_camera camera) rb
                     (height (pass_camera camera), width (pass_camera camera))"
    by blast
  have c: "map_option ls_rgb (last_state self') = Some (rgb rb)"
      "map_option ls_rgb_buffer (last_state self') = Some (rgb_buffer rb)"
      "map_option ls_opacity (last_state self') = Some (opacity rb)"
    by (simp_all add: s(4) cache_last_state_def)
  have "case mask rays of
              None \<Rightarrow> True
            | Some m \<Rightarrow>
                (\<exists>msk. mask_plane m = Inr msk \<and>
                   zero_where msk (rgb rb) \<and> zero_where msk (rgb_buffer rb) \<and>
                   zero_where msk (opacity rb) \<and>
                   masked_zero msk (if use_optix_denoiser self2 then denoise ext (rgb acc)
                                    else rgb acc) = Inr (rgb rb) \<and>
                   masked_zero msk (rgb acc) = Inr (rgb_buffer rb) \<and>
                   masked_zero msk (opacity acc) = Inr (opacity rb) \<and>
                   map_option ls_rgb (last_state self') = Some (rgb rb) \<and>
                   map_option ls_rgb_buffer (last_state self') = Some (rgb_buffer rb) \<and>
                   map_option ls_opacity (last_state self') = Some (opacity rb))"
  proof (cases "mask rays")
    case None
    then show ?thesis by simp
  next
    case (Some m)
    from finish_pass_masked [OF s(3) Some] obtain msk where
      m: "mask_plane m = Inr msk"
         "masked_zero msk (if use_optix_denoiser self2 then denoise ext (rgb acc) else rgb acc)
             = Inr (rgb rb)"
         "masked_zero msk (rgb acc) = Inr (rgb_buffer rb)"
         "masked_zero msk (opacity acc) = Inr (opacity rb)"
      by blast
    from m(2-4) have "zero_where msk (rgb rb)" "zero_where msk (rgb_buffer rb)"
        "zero_where msk (opacity rb)"
      by (auto intro: masked_zero_zero_where)
    with m c show ?thesis unfolding Some by auto
  qed
  with s(1,2) show ?thesis by blast
qed

lemmas demo_defs = demo_ext_def demo_engine_def demo_camera_def demo_primitives_def
  Primitives_init_def demo_results_def box_blur_def identity4_def num_rays_def fisheye_engine_def

lemmas pass_defs = render_pass_def raygen_def raygen_pinhole_def raygen_fisheye_def
  add_jitter_def round_pixels_def squeeze_last_def torch_round_def torch_reshape_def torch_cat_def
  Camera_cuda_def render_first_pass_def render_accumulating_pass_def trace_rays_def
  has_visible_objects_def finish_pass_def cache_last_state_def batch_map_def torch_pow_def
  mean_dim0_unsqueeze_def mask_plane_def masked_zero_def Let_def

subsection \<open>Passes on the test scene\<close>

lemma first_pinhole:
  "map_sum id fst (render_pass demo_ext demo_engine demo_camera True) =
     Inr \<lparr>rgb = [[[1, 1, 1], [1, 1, 1]]], opacity = [[[1], [1]]],
          rgb_buffer = [[[1, 1, 1], [1, 1, 1]]]\<rparr>"
  by (simp add: pass_defs demo_defs numeral_eq_Suc)

lemma first_fisheye:
  "map_sum id fst (render_pass demo_ext fisheye_engine demo_camera True) =
     Inr \<lparr>rgb = [[[0, 0, 0], [1, 1, 1]]], opacity = [[[0], [1]]],
          rgb_buffer = [[[0, 0, 0], [1, 1, 1]]]\<rparr>"
  by (simp add: pass_defs demo_defs numeral_eq_Suc)

lemma fisheye_mask:
  "map_sum id (\<lambda>r. mask (fst r)) (pass_rays demo_ext fisheye_engine demo_camera True) =
     Inr (Some \<lparr>shape = [1, 2, 1], elems = [True, False]\<rparr>)"
  by (simp add: pass_rays_def pass_camera_def pass_defs demo_defs numeral_eq_Suc)

theorem masked_pixels_are_zero_witness:
  "\<exists>rb self' rays self1 m.
     render_pass demo_ext fisheye_engine demo_camera True = Inr (rb, self') \<and>
     pass_rays demo_ext fisheye_engine demo_camera True = Inr (rays, self1) \<and>
     mask rays = Some m \<and> mask_plane m = Inr [True, False] \<and>
     zero_where [True, False] (rgb rb) \<and> zero_where [True, False] (rgb_buffer rb) \<and>
     zero_where [True, False] (opacity rb) \<and>
     rgb rb = [[[0, 0, 0], [1, 1, 1]]] \<and> opacity rb = [[[0], [1]]]"
proof -
  from first_fisheye obtain rb self' where
    r: "render_pass demo_ext fisheye_engine demo_camera True = Inr (rb, self')"
       "rb = \<lparr>rgb = [[[0, 0, 0], [1, 1, 1]]], opacity = [[[0], [1]]],
          rgb_buffer = [[[0, 0, 0], [1, 1, 1]]]\<rparr>"
    by (cases "render_pass demo_ext fisheye_engine demo_camera True") auto
  from masked_pixels_are_zero [OF r(1)] obtain rays self1 and acc :: AccumulationBuffers and self2 :: Engine3DGRUT where
    s: "pass_rays demo_ext fisheye_engine demo_camera True = Inr (rays, self1)"
       "case mask rays of
              None \<Rightarrow> True
            | Some m \<Rightarrow>
                (\<exists>msk. mask_plane m = Inr msk \<and>
                   zero_where msk (rgb rb) \<and> zero_where msk (rgb_buffer rb) \<and>
                   zero_where msk (opacity rb) \<and>
                   masked_zero msk (if use_optix_denoiser self2 then denoise demo_ext (rgb acc)
                                    else rgb acc) = Inr (rgb rb) \<and>
                   masked_zero msk (rgb acc) = Inr (rgb_buffer rb) \<and>
                   masked_zero msk (opacity acc) = Inr (opacity rb) \<and>
                   map_option ls_rgb (last_state self') = Some (rgb rb) \<and>
                   map_option ls_rgb_buffer (last_state self') = Some (rgb_buffer rb) \<and>
                   map_option ls_opacity (last_state self') = Some (opacity rb))"
    by blast
  from fisheye_mask s(1) have m: "mask rays = Some \<lparr>shape = [1, 2, 1], elems = [True, False]\<rparr>"
    by simp
  have p: "mask_plane \<lparr>shape = [1, 2, 1], elems = [True, False]\<rparr> = Inr [True, False]"
    by (simp add: mask_plane_def numeral_eq_Suc)
  from s(2) obtain msk where
    k: "mask_plane \<lparr>shape = [1, 2, 1], elems = [True, False]\<rparr> = Inr msk"
       "zero_where msk (rgb rb)" "zero_where msk (rgb_buffer rb)" "zero_where msk (opacity rb)"
    unfolding m option.case by blast
  from k(1) have "msk = [True, False]" unfolding p by simp
  with k have "zero_where [True, False] (rgb rb)" "zero_where [True, False] (rgb_buffer rb)"
      "zero_where [True, False] (opacity rb)"
    by simp_all
  with r s(1) m p show ?thesis by (intro exI [of _ rb] exI [of _ self'] exI [of _ rays]
        exI [of _ self1] exI [of _ "\<lparr>shape = [1, 2, 1], elems = [True, False]\<rparr>"]) simp
qed

lemma raygen_refuses_cpu:
  "map_sum id fst (raygen (cuda_only demo_ext) demo_engine demo_camera False) = Inl RuntimeError"
  by (simp add: cuda_only_def pass_defs demo_defs numeral_eq_Suc)

theorem render_pass_cpu_camera_witness:
  "device demo_camera = CPU \<and>
   map_sum id fst (raygen (cuda_only demo_ext) demo_engine demo_camera False) = Inl RuntimeError \<and>
   map_sum id fst (render_pass (cuda_only demo_ext) demo_engine demo_camera True) =
     Inr \<lparr>rgb = [[[1, 1, 1], [1, 1, 1]]], opacity = [[[1], [1]]],
          rgb_buffer = [[[1, 1, 1], [1, 1, 1]]]\<rparr> \<and>
   render_pass demo_ext demo_engine demo_camera True =
     render_pass demo_ext demo_engine (Camera_cuda demo_camera) True \<and>
   map_sum id (\<lambda>r. map_option ls_camera (last_state (snd r)))
     (render_pass demo_ext demo_engine demo_camera True) = Inr (Some (view_matrix demo_camera))"
proof -
  have d: "device demo_camera = CPU" by (simp add: demo_camera_def)
  have v: "map_sum id (\<lambda>r. map_option ls_camera (last_state (snd r)))
     (render_pass demo_ext demo_engine demo_camera True) = Inr (Some (view_matrix demo_camera))"
    by (simp add: pass_defs demo_defs numeral_eq_Suc)
  have f: "map_sum id fst (render_pass demo_ext demo_engine (Camera_cuda demo_camera) True) =
     Inr \<lparr>rgb = [[[1, 1, 1], [1, 1, 1]]], opacity = [[[1], [1]]],
          rgb_buffer = [[[1, 1, 1], [1, 1, 1]]]\<rparr>"
    by (simp add: pass_defs demo_defs numeral_eq_Suc)
  from render_pass_cpu_camera [OF d, of demo_ext demo_engine True] d f v raygen_refuses_cpu
  show ?thesis by simp
qed

subsection \<open>Passes after termination\<close>

text \<open>
  Claim C8, at its failing input: a fish-eye camera whose mask marks the first of two pixels,
  no progressive effect enabled, the denoiser on. After the first pass the termination
  predicate is false, and the next pass returns another colour buffer than the first did:
  the mask has zeroed the cached noisy buffer, and the pass denoises that buffer again, so
  the denoiser sees the zeroed pixel where it saw the traced colour before.
\<close>

theorem cached_frame_changes_after_termination:
  "first_then_next_pass demo_ext fisheye_engine demo_camera =
     Inr (\<lparr>rgb = [[[0, 0, 0], [1, 1, 1]]], opacity = [[[0], [1]]],
           rgb_buffer = [[[0, 0, 0], [1, 1, 1]]]\<rparr>,
          False,
          \<lparr>rgb = [[[0, 0, 0], [1 / 2, 1 / 2, 1 / 2]]], opacity = [[[0], [1]]],
           rgb_buffer = [[[0, 0, 0], [1, 1, 1]]]\<rparr>)"
  by (simp add: first_then_next_pass_def has_progressive_effects_to_render_def
      pass_defs demo_defs numeral_eq_Suc)

subsection \<open>Registering materials\<close>



















subsection \<open>An antialiasing pass under a mask\<close>

lemmas acc_defs = render_spp_buffer_def accumulate_to_buffer_def accumulate_opacity_def
  batch_zip_def frame_zip_def sum_dim0_unsqueeze_def pass_accumulated_def pass_rays_def
  pass_camera_def after_first_pass_def fisheye_spp_engine_def

text \<open>
  Claim C7, at its failing input: the fish-eye camera, whose rays carry a mask, with
  antialiasing in batches of four. The first pass returns masked buffers. The next pass
  sums the traced colours over the batch but adds the traced opacities, one frame per
  sample, to the cached opacity frame without reducing them, so after accumulation the
  colour buffer has one frame and the opacity buffer four; zeroing the opacity at the mask of
  shape one by height by width then raises, and the pass returns no buffers.
\<close>

theorem masked_antialiasing_pass_raises:
  "map_sum id fst (render_pass demo_ext fisheye_spp_engine demo_camera True) =
     Inr \<lparr>rgb = [[[0, 0, 0], [1, 1, 1]]], opacity = [[[0], [1]]],
          rgb_buffer = [[[0, 0, 0], [1, 1, 1]]]\<rparr> \<and>
   batch_size (spp (after_first_pass demo_ext fisheye_spp_engine demo_camera)) = 4 \<and>
   map_sum id (\<lambda>r. (length (rgb (fst r)), length (opacity (fst r))))
     (pass_accumulated demo_ext (after_first_pass demo_ext fisheye_spp_engine demo_camera)
        demo_camera False) = Inr (1, 4) \<and>
   render_pass demo_ext (after_first_pass demo_ext fisheye_spp_engine demo_camera)
     demo_camera False = Inl IndexError"
  by (simp add: acc_defs pass_defs demo_defs numeral_eq_Suc)

subsection \<open>Accumulation\<close>

lemma map_map2_map:
  "map g (map2 f (map h xs) ys) = map2 (\<lambda>x y. g (f (h x) y)) xs ys"
proof (induction xs arbitrary: ys)
  case Nil
  show ?case by simp
next
  case (Cons x xs)
  then show ?case by (cases ys) simp_all
qed

lemma map2_cong_all:
  assumes "list_all P xs" and "list_all Q ys"
    and "\<And>x y. P x \<Longrightarrow> Q y \<Longrightarrow> f x y = g x y"
  shows "map2 f xs ys = map2 g xs ys"
  using assms(1,2)
proof (induction xs arbitrary: ys)
  case Nil
  show ?case by simp
next
  case (Cons x xs)
  show ?case
  proof (cases ys)
    case Nil
    then show ?thesis by simp
  next
    case (Cons y ys')
    with Cons.prems have "P x" "Q y" "list_all P xs" "list_all Q ys'" by simp_all
    with Cons.IH [of ys'] assms(3) [of x y] show ?thesis unfolding Cons by simp
  qed
qed

lemma batch_map_zip:
  "batch_map g (map2 (frame_zip (+)) (batch_map h prev) new) =
     map2 (map2 (map2 (\<lambda>x y. g (h x + y)))) prev new"
  unfolding batch_map_def frame_zip_def map_map2_map ..

lemma batch_map_batch_map: "batch_map f (batch_map g x) = batch_map (\<lambda>v. f (g v)) x"
  by (simp add: batch_map_def o_def)

lemma accumulate_to_buffer_pointwise:
  assumes "gamma \<noteq> 0" and "length prev = length new"
  shows "accumulate_to_buffer prev new n gamma b =
           Inr (map2 (map2 (map2 (\<lambda>P N. gamma_mean P N (of_int n) gamma (of_int b)))) prev new)"
proof -
  have l: "length (batch_map (\<lambda>v. torch_pow v gamma * of_int n) prev) = length new"
    using assms(2) by (simp add: batch_map_def)
  have s1: "batch_zip (+) (batch_map (\<lambda>v. torch_pow v gamma * of_int n) prev) new
        = Inr (map2 (frame_zip (+)) (batch_map (\<lambda>v. torch_pow v gamma * of_int n) prev) new)"
    using l by (simp add: batch_zip_def)
  have "accumulate_to_buffer prev new n gamma b =
        Inr (batch_map (\<lambda>v. torch_pow (v / of_int (n + b)) (1 / gamma))
              (map2 (frame_zip (+)) (batch_map (\<lambda>v. torch_pow v gamma * of_int n) prev) new))"
    using assms(1) by (simp add: accumulate_to_buffer_def Let_def s1 batch_map_batch_map)
  then show ?thesis
    unfolding batch_map_zip by (simp add: gamma_mean_def torch_pow_def)
qed

text \<open>
  Claim C3, over the reals. For a positive gamma, a previous buffer and a contribution of the
  same batch size with no negative entries, \<^verbatim>\<open>_accumulate_to_buffer\<close> returns, entry by
  entry, \<open>((P^g * n + N) / (n + b))^(1/g)\<close>; with gamma 1, one sample so far and a batch of
  one it returns the entry-wise \<open>(a + b) / 2\<close>.
\<close>

theorem accumulate_gamma_mean:
  "(0 < gamma \<and> 0 \<le> n \<and> 0 < b \<and> length prev = length new \<and>
      batch_nonneg prev \<and> batch_nonneg new \<longrightarrow>
      accumulate_to_buffer prev new n gamma b =
        Inr (map2 (map2 (map2 (\<lambda>P N. gamma_mean P N (of_int n) gamma (of_int b)))) prev new)) \<and>
   (length prev = length new \<and> batch_nonneg prev \<and> batch_nonneg new \<longrightarrow>
      accumulate_to_buffer prev new 1 1 1 =
        Inr (map2 (map2 (map2 (\<lambda>a b. (a + b) / 2))) prev new)) \<and>
   (0 \<le> a \<and> 0 \<le> c \<longrightarrow> accumulate_to_buffer [[[a]]] [[[c]]] 1 1 1 = Inr [[[(a + c) / 2]]])"
proof (intro conjI impI)
  assume "0 < gamma \<and> 0 \<le> n \<and> 0 < b \<and> length prev = length new \<and>
      batch_nonneg prev \<and> batch_nonneg new"
  then show "accumulate_to_buffer prev new n gamma b =
        Inr (map2 (map2 (map2 (\<lambda>P N. gamma_mean P N (of_int n) gamma (of_int b)))) prev new)"
    using accumulate_to_buffer_pointwise [of gamma prev new n b] by simp
next
  assume h: "length prev = length new \<and> batch_nonneg prev \<and> batch_nonneg new"
  have pt: "gamma_mean x y (of_int 1) 1 (of_int 1) = (x + y) / 2" if "0 \<le> x" "0 \<le> y" for x y
    using that by (simp add: gamma_mean_def)
  have "map2 (map2 (map2 (\<lambda>P N. gamma_mean P N (of_int 1) 1 (of_int 1)))) prev new =
        map2 (map2 (map2 (\<lambda>a b. (a + b) / 2))) prev new"
    using h unfolding batch_nonneg_def
    by (intro map2_cong_all [where P = "list_all (list_all (\<lambda>x. 0 \<le> x))"
          and Q = "list_all (list_all (\<lambda>x. 0 \<le> x))"]
        map2_cong_all [where P = "list_all (\<lambda>x. 0 \<le> x)" and Q = "list_all (\<lambda>x. 0 \<le> x)"]
        map2_cong_all [where P = "\<lambda>x. 0 \<le> x" and Q = "\<lambda>x. 0 \<le> x"] pt) simp_all
  with h show "accumulate_to_buffer prev new 1 1 1 =
        Inr (map2 (map2 (map2 (\<lambda>a b. (a + b) / 2))) prev new)"
    using accumulate_to_buffer_pointwise [of 1 prev new 1 1] by simp
next
  assume "0 \<le> a \<and> 0 \<le> c"
  then show "accumulate_to_buffer [[[a]]] [[[c]]] 1 1 1 = Inr [[[(a + c) / 2]]]"
    using accumulate_to_buffer_pointwise [of 1 "[[[a]]]" "[[[c]]]" 1 1]
    by (simp add: gamma_mean_def)
qed

theorem accumulate_gamma_mean_witness:
  "batch_nonneg [[[1 / 4, 1]]] \<and> batch_nonneg [[[3 / 4, 0]]] \<and>
   accumulate_to_buffer [[[1 / 4, 1]]] [[[3 / 4, 0]]] 1 1 1 = Inr [[[1 / 2, 1 / 2]]] \<and>
   accumulate_to_buffer [[[4]]] [[[9]]] 1 2 1 = Inr [[[gamma_mean 4 9 1 2 1]]] \<and>
   gamma_mean 4 9 1 2 1 = 5 / sqrt 2"
proof -
  have n: "batch_nonneg [[[1 / 4, 1]]]" "batch_nonneg [[[3 / 4, 0]]]"
      "batch_nonneg [[[4]]]" "batch_nonneg [[[9]]]"
    by (simp_all add: batch_nonneg_def)
  have g: "gamma_mean 4 9 1 2 1 = 5 / sqrt 2"
  proof -
    have "(4::real) powr 2 = 16" by simp
    then have "gamma_mean 4 9 1 2 1 = (25 / 2) powr (1 / 2)" by (simp add: gamma_mean_def)
    also have "\<dots> = sqrt (25 / 2)" by (simp add: powr_half_sqrt)
    also have "\<dots> = 5 / sqrt 2" by (simp add: real_sqrt_divide)
    finally show ?thesis .
  qed
  from accumulate_gamma_mean [of 1 1 1 "[[[1 / 4, 1]]]" "[[[3 / 4, 0]]]" 0 0] n
  have w1: "accumulate_to_buffer [[[1 / 4, 1]]] [[[3 / 4, 0]]] 1 1 1 = Inr [[[1 / 2, 1 / 2]]]"
    by (simp add: gamma_mean_def)
  from accumulate_gamma_mean [of 2 1 1 "[[[4]]]" "[[[9]]]" 0 0] n
  have w2: "accumulate_to_buffer [[[4]]] [[[9]]] 1 2 1 = Inr [[[gamma_mean 4 9 1 2 1]]]"
    by simp
  from w1 w2 n g show ?thesis by simp
qed

subsection \<open>Scaling a new mesh to the scene\<close>

lemma Max_insert_max:
  "finite A \<Longrightarrow> Max (insert (max a c) A) = max a (Max (insert c A))" for a c :: real
  by (cases "A = {}") (simp_all add: max.assoc)

lemma Min_insert_min:
  "finite A \<Longrightarrow> Min (insert (min a c) A) = min a (Min (insert c A))" for a c :: real
  by (cases "A = {}") (simp_all add: min.assoc)

lemma max_dim0_Max:
  "max_dim0 (x, y, z) vs =
     (Max (set (x # map fst vs)), Max (set (y # map (\<lambda>v. fst (snd v)) vs)),
      Max (set (z # map (\<lambda>v. snd (snd v)) vs)))"
proof (induction vs arbitrary: x y z)
  case Nil
  show ?case by simp
next
  case (Cons v vs)
  obtain u w t where v: "v = (u, w, t)" by (cases v) auto
  show ?case unfolding v by (simp add: Cons Max_insert_max)
qed

lemma min_dim0_Min:
  "min_dim0 (x, y, z) vs =
     (Min (set (x # map fst vs)), Min (set (y # map (\<lambda>v. fst (snd v)) vs)),
      Min (set (z # map (\<lambda>v. snd (snd v)) vs)))"
proof (induction vs arbitrary: x y z)
  case Nil
  show ?case by simp
next
  case (Cons v vs)
  obtain u w t where v: "v = (u, w, t)" by (cases v) auto
  show ?case unfolding v by (simp add: Cons Min_insert_min)
qed

lemma vec_max_Max: "vec_max (x, y, z) = Max {x, y, z}"
  by (simp add: vec_max_def max.assoc max.commute max.left_commute)

lemma mesh_extent_code:
  "mesh_vertices mesh = v # vs \<Longrightarrow>
     vec_max (vec_sub (max_dim0 v vs) (min_dim0 v vs)) = mesh_extent mesh"
proof -
  assume a: "mesh_vertices mesh = v # vs"
  obtain x y z where v: "v = (x, y, z)" by (cases v) auto
  show ?thesis
    unfolding v max_dim0_Max min_dim0_Min mesh_extent_def a
    by (simp add: vec_sub_def vec_max_Max Let_def)
qed

lemma vec_max_scale: "0 \<le> s \<Longrightarrow> vec_max (vec_scale s v) = s * vec_max v"
  by (cases v) (simp add: vec_max_def vec_scale_def max_mult_distrib_left)

lemma scale_scale:
  "ObjectTransform_scale b (ObjectTransform_scale a t) = ObjectTransform_scale (b * a) t"
  by (cases "tr_scale t") (simp add: ObjectTransform_scale_def mult.assoc)

text \<open>
  Claim C6, over the reals. For a mesh with a vertex and a positive extent,
  \<^verbatim>\<open>set_mesh_scale_to_scene\<close> scales the transform by 1 / mesh extent and then, exactly when
  the scene's largest axis extent is at most 5, by half the scene extent: the total scale is
  \<open>0.5 * scene_extent / mesh_extent\<close> for such a scene and \<open>1 / mesh_extent\<close> for a larger one.
\<close>

theorem mesh_scaled_to_scene:
  assumes "mesh_vertices mesh \<noteq> []" and "0 < mesh_extent mesh"
  shows "set_mesh_scale_to_scene self mesh transform0 =
           Inr (if scene_extent self \<le> 5
                then ObjectTransform_scale (0.5 * scene_extent self)
                       (ObjectTransform_scale (1 / mesh_extent mesh) transform0)
                else ObjectTransform_scale (1 / mesh_extent mesh) transform0) \<and>
         set_mesh_scale_to_scene self mesh transform0 =
           Inr (ObjectTransform_scale
                  (if scene_extent self \<le> 5 then 0.5 * scene_extent self / mesh_extent mesh
                   else 1 / mesh_extent mesh) transform0) \<and>
         set_mesh_scale_to_scene self mesh identity_transform =
           Inr (identity_transform\<lparr>tr_scale :=
                  (let s = (if scene_extent self \<le> 5
                            then 0.5 * scene_extent self / mesh_extent mesh
                            else 1 / mesh_extent mesh) in (s, s, s))\<rparr>)"
proof -
  from assms(1) obtain v vs where a: "mesh_vertices mesh = v # vs"
    by (cases "mesh_vertices mesh") auto
  have se: "vec_max (scene_scale self) = scene_extent self"
    by (cases "scene_scale self") (simp add: scene_extent_def vec_max_Max)
  have r: "set_mesh_scale_to_scene self mesh t =
           Inr (if scene_extent self \<le> 5
                then ObjectTransform_scale (0.5 * scene_extent self)
                       (ObjectTransform_scale (1 / mesh_extent mesh) t)
                else ObjectTransform_scale (1 / mesh_extent mesh) t)" for t
    by (simp add: set_mesh_scale_to_scene_def a mesh_extent_code [OF a] Let_def se
        SCALE_OF_NEW_MESH_TO_SMALL_SCENE_def vec_max_scale not_less [symmetric])
  have i: "ObjectTransform_scale s identity_transform = identity_transform\<lparr>tr_scale := (s, s, s)\<rparr>"
    for s by (simp add: ObjectTransform_scale_def identity_transform_def)
  have c: "set_mesh_scale_to_scene self mesh t =
           Inr (ObjectTransform_scale
                  (if scene_extent self \<le> 5 then 0.5 * scene_extent self / mesh_extent mesh
                   else 1 / mesh_extent mesh) t)" for t
    unfolding r by (simp add: scale_scale)
  show ?thesis
    unfolding c [of identity_transform] i
    using r [of transform0] c [of transform0] by (simp add: Let_def)
qed

lemma demo_mesh_extent: "mesh_extent demo_mesh = 4"
  by (simp add: mesh_extent_def demo_mesh_def)

theorem mesh_scaled_to_scene_witness:
  "mesh_vertices demo_mesh \<noteq> [] \<and> mesh_extent demo_mesh = 4 \<and>
   scene_extent demo_primitives = 1 \<and>
   set_mesh_scale_to_scene demo_primitives demo_mesh identity_transform =
     Inr (identity_transform\<lparr>tr_scale := (1 / 8, 1 / 8, 1 / 8)\<rparr>) \<and>
   scene_extent (demo_primitives\<lparr>scene_scale := (5, 1, 1)\<rparr>) = 5 \<and>
   set_mesh_scale_to_scene (demo_primitives\<lparr>scene_scale := (5, 1, 1)\<rparr>) demo_mesh
       identity_transform =
     Inr (identity_transform\<lparr>tr_scale := (5 / 8, 5 / 8, 5 / 8)\<rparr>) \<and>
   scene_extent (demo_primitives\<lparr>scene_scale := (8, 2, 1)\<rparr>) = 8 \<and>
   set_mesh_scale_to_scene (demo_primitives\<lparr>scene_scale := (8, 2, 1)\<rparr>) demo_mesh
       identity_transform =
     Inr (identity_transform\<lparr>tr_scale := (1 / 4, 1 / 4, 1 / 4)\<rparr>)"
proof -
  have v: "mesh_vertices demo_mesh \<noteq> []" by (simp add: demo_mesh_def)
  have e: "0 < mesh_extent demo_mesh" by (simp add: demo_mesh_extent)
  have s1: "scene_extent demo_primitives = 1"
    by (simp add: scene_extent_def demo_primitives_def Primitives_init_def)
  have s2: "scene_extent (demo_primitives\<lparr>scene_scale := (5, 1, 1)\<rparr>) = 5"
    by (simp add: scene_extent_def)
  have s3: "scene_extent (demo_primitives\<lparr>scene_scale := (8, 2, 1)\<rparr>) = 8"
    by (simp add: scene_extent_def)
  show ?thesis
    using mesh_scaled_to_scene [OF v e, of demo_primitives identity_transform]
      mesh_scaled_to_scene [OF v e, of "demo_primitives\<lparr>scene_scale := (5, 1, 1)\<rparr>"
        identity_transform]
      mesh_scaled_to_scene [OF v e, of "demo_primitives\<lparr>scene_scale := (8, 2, 1)\<rparr>"
        identity_transform]
    by (simp add: v s1 s2 s3 demo_mesh_extent Let_def ObjectTransform_scale_def
        identity_transform_def)
qed

end
